theory Spec2Isabelle
  imports Main "HOL-Library.Word" "HOL-Library.Log_Nat" "HOL-Library.Sublist"
begin

section \<open>Single-precision floats as bit patterns\<close>

text \<open>
  The field \<^verbatim>\<open>SavedState::angle\<close> is a C++ \<^verbatim>\<open>float\<close>.  It is kept as its 32-bit
  IEEE-754 binary32 pattern, so that copying it is bit-exact.  The only float operations
  of \<^verbatim>\<open>main.cpp\<close> that change or test a stored float are \<^verbatim>\<open>angle += .01f\<close> and
  \<^verbatim>\<open>angle > 1\<close>; they are the binary32 addition (round to nearest, ties to even) and the
  ordered comparison.  A finite float is read as an integer multiple of \<open>2 ^ -149\<close>.
\<close>

type_synonym float32 = "32 word"

definition f32_exp :: "float32 \<Rightarrow> nat" where
  "f32_exp w = (unat w div 2 ^ 23) mod 256"

definition f32_man :: "float32 \<Rightarrow> nat" where
  "f32_man w = unat w mod 2 ^ 23"

definition f32_neg :: "float32 \<Rightarrow> bool" where
  "f32_neg w = (2 ^ 31 \<le> unat w)"

definition f32_is_nan :: "float32 \<Rightarrow> bool" where
  "f32_is_nan w = (f32_exp w = 255 \<and> f32_man w \<noteq> 0)"

definition f32_mag :: "float32 \<Rightarrow> nat" where
  \<comment> \<open>magnitude in units of \<open>2 ^ -149\<close>; an infinity reads as \<open>2 ^ 277\<close>, above every finite float\<close>
  "f32_mag w =
     (if f32_exp w = 0 then f32_man w else (2 ^ 23 + f32_man w) * 2 ^ (f32_exp w - 1))"

definition f32_val :: "float32 \<Rightarrow> int" where
  "f32_val w = (if f32_neg w then - int (f32_mag w) else int (f32_mag w))"

definition f32_gt :: "float32 \<Rightarrow> float32 \<Rightarrow> bool" where
  \<comment> \<open>the C++ \<^verbatim>\<open>a > b\<close> on floats: false as soon as one side is a NaN\<close>
  "f32_gt a b = (\<not> f32_is_nan a \<and> \<not> f32_is_nan b \<and> f32_val b < f32_val a)"

definition f32_le :: "float32 \<Rightarrow> float32 \<Rightarrow> bool" where
  "f32_le a b = (\<not> f32_is_nan a \<and> \<not> f32_is_nan b \<and> f32_val a \<le> f32_val b)"

definition f32_round_mag :: "nat \<Rightarrow> nat" where
  \<comment> \<open>nearest binary32 magnitude (ties to even) of \<open>m * 2 ^ -149\<close>, as a bit pattern without
      sign; at most the pattern of infinity\<close>
  "f32_round_mag m =
     (let sh = (if m < 2 ^ 24 then 0 else floorlog 2 m - 24);
          q = m div 2 ^ sh;
          r = m mod 2 ^ sh;
          q' = (if 2 ^ sh < 2 * r \<or> (2 * r = 2 ^ sh \<and> odd q) then q + 1 else q)
      in min (sh * 2 ^ 23 + q') (255 * 2 ^ 23))"

definition f32_add :: "float32 \<Rightarrow> float32 \<Rightarrow> float32" where
  \<comment> \<open>a NaN operand comes back quieted; the sign of the NaN of \<open>\<infinity> - \<infinity>\<close> is the platform's
      choice and does not arise when one operand is finite\<close>
  "f32_add a b =
     (if f32_is_nan a then of_nat (unat a div 2 ^ 23 * 2 ^ 23 + 2 ^ 22 + unat a mod 2 ^ 22)
      else if f32_is_nan b then of_nat (unat b div 2 ^ 23 * 2 ^ 23 + 2 ^ 22 + unat b mod 2 ^ 22)
      else if f32_exp a = 255 then
        (if f32_exp b = 255 \<and> f32_neg a \<noteq> f32_neg b then 0x7FC00000 else a)
      else if f32_exp b = 255 then b
      else
        (let s = f32_val a + f32_val b
         in if s = 0 then (if f32_neg a \<and> f32_neg b then 0x80000000 else 0)
            else if 0 < s then of_nat (f32_round_mag (nat s))
            else of_nat (2 ^ 31 + f32_round_mag (nat (- s)))))"

definition f32_zero :: float32 where
  \<comment> \<open>the float \<^verbatim>\<open>0\<close>\<close>
  "f32_zero = 0"

definition f32_one :: float32 where
  \<comment> \<open>the float \<^verbatim>\<open>1\<close>\<close>
  "f32_one = 0x3F800000"

definition f32_hundredth :: float32 where
  \<comment> \<open>the literal \<^verbatim>\<open>.01f\<close>, the binary32 nearest to 1/100\<close>
  "f32_hundredth = 0x3C23D70A"

definition f32_in_unit :: "float32 \<Rightarrow> bool" where
  \<comment> \<open>a float in the closed range 0..1\<close>
  "f32_in_unit a = (f32_le f32_zero a \<and> f32_le a f32_one)"


section \<open>Data of the engine\<close>

type_synonym handle = nat
  \<comment> \<open>a pointer or an EGL handle; \<open>0\<close> is \<^verbatim>\<open>nullptr\<close>, \<^verbatim>\<open>EGL_NO_DISPLAY\<close>,
      \<^verbatim>\<open>EGL_NO_SURFACE\<close> and \<^verbatim>\<open>EGL_NO_CONTEXT\<close>\<close>

text \<open>
  \<^verbatim>\<open>SavedState\<close> and \<^verbatim>\<open>Context\<close> with the fields of the source.  Three fields are renamed:
  \<^verbatim>\<open>x\<close> and \<^verbatim>\<open>y\<close> are \<open>saved_x\<close> and \<open>saved_y\<close>, and \<^verbatim>\<open>context\<close> is \<open>glcontext\<close>.
\<close>

record SavedState =
  angle :: float32
  saved_x :: "32 word"
  saved_y :: "32 word"

text \<open>
  The fields of \<^verbatim>\<open>struct android_app\<close> that \<^verbatim>\<open>main.cpp\<close> reads or writes.  The buffer
  behind \<^verbatim>\<open>savedState\<close> holds one \<^verbatim>\<open>SavedState\<close> (\<open>None\<close> is \<^verbatim>\<open>nullptr\<close>).
\<close>

record android_app =
  window :: handle
  savedState :: "SavedState option"
  savedStateSize :: nat
  destroyRequested :: int
  looper :: handle

record Context =
  app :: android_app
  sensorManager :: handle
  accelerometerSensor :: handle
  sensorEventQueue :: handle
  animating :: int
  display :: handle
  surface :: handle
  glcontext :: handle
  width :: "32 word"
  height :: "32 word"
  state :: SavedState

datatype error = AssertionFailed

text \<open>
  What the engine does to its surroundings, in the order it does it.  Queries that only read
  the backend (\<^verbatim>\<open>eglGetDisplay\<close>, \<^verbatim>\<open>eglChooseConfig\<close>, \<^verbatim>\<open>eglGetConfigAttrib\<close>,
  \<^verbatim>\<open>eglQuerySurface\<close>, \<^verbatim>\<open>glGetString\<close>) are answered by the backend record below and leave
  no entry.  The red and blue arguments of \<^verbatim>\<open>glClearColor\<close> are float quotients of two
  converted integers; they are kept as the pair of integers.
\<close>

datatype effect =
    PollAll int
  | EglInitialize handle
  | EglCreateWindowSurface handle handle handle
  | EglCreateContext handle handle
  | EglMakeCurrent handle handle handle handle
  | EglDestroyContext handle handle
  | EglDestroySurface handle handle
  | EglTerminate handle
  | EglSwapBuffers handle handle
  | GlClearColor "32 word \<times> 32 word" float32 "32 word \<times> 32 word"
  | GlClear
  | GlHintPerspectiveFastest
  | GlEnableCullFace
  | GlShadeModelSmooth
  | GlDisableDepthTest
  | EnableSensor handle handle
  | SetEventRate handle handle int
  | DisableSensor handle handle
  | LogW string
  | LogOpenGLInfo
  | LogAccelerometer float32 float32 float32

record egl_config =
  cfg :: handle
  red_size :: "int option"
  green_size :: "int option"
  blue_size :: "int option"
  depth_size :: "int option"

text \<open>
  The answers of the graphics backend during one acquisition: the display of
  \<^verbatim>\<open>eglGetDisplay\<close>, the configurations of \<^verbatim>\<open>eglChooseConfig\<close> (an attribute is \<open>None\<close>
  where \<^verbatim>\<open>eglGetConfigAttrib\<close> fails), the handles of \<^verbatim>\<open>eglCreateWindowSurface\<close>
  (display, configuration, window) and \<^verbatim>\<open>eglCreateContext\<close> (display, configuration),
  whether \<^verbatim>\<open>eglMakeCurrent\<close> (display, surface, context) succeeds, and the size of the
  surface.
\<close>

record egl_backend =
  getDisplay :: handle
  configs :: "egl_config list"
  createWindowSurface :: "handle \<Rightarrow> handle \<Rightarrow> handle \<Rightarrow> handle"
  createContext :: "handle \<Rightarrow> handle \<Rightarrow> handle"
  makeCurrent :: "handle \<Rightarrow> handle \<Rightarrow> handle \<Rightarrow> bool"
  surfaceWidth :: "32 word"
  surfaceHeight :: "32 word"

text \<open>
  The platform at \<^verbatim>\<open>Engine::init\<close>: what the two symbols looked up in \<^verbatim>\<open>libandroid.so\<close>
  return when called (\<open>None\<close> where \<^verbatim>\<open>dlsym\<close> finds nothing), the default accelerometer
  (\<open>0\<close> when the device has none) and the event queue created for it.
\<close>

record platform =
  getInstanceForPackage :: "handle option"
  getInstance :: "handle option"
  defaultSensor :: handle
  createEventQueue :: handle

text \<open>
  An input event as the engine sees it: its \<^verbatim>\<open>AInputEvent_getType\<close>, and the values of
  \<^verbatim>\<open>(int) AMotionEvent_getX(event, 0)\<close> and \<^verbatim>\<open>(int) AMotionEvent_getY(event, 0)\<close>.
\<close>

record input_event =
  ev_type :: int
  motion_x :: "32 word"
  motion_y :: "32 word"

definition AINPUT_EVENT_TYPE_KEY :: int where
  "AINPUT_EVENT_TYPE_KEY = 1"

definition AINPUT_EVENT_TYPE_MOTION :: int where
  "AINPUT_EVENT_TYPE_MOTION = 2"

definition LOOPER_ID_USER :: int where
  "LOOPER_ID_USER = 3"

datatype app_cmd =
    APP_CMD_INPUT_CHANGED
  | APP_CMD_INIT_WINDOW
  | APP_CMD_TERM_WINDOW
  | APP_CMD_WINDOW_RESIZED
  | APP_CMD_WINDOW_REDRAW_NEEDED
  | APP_CMD_CONTENT_RECT_CHANGED
  | APP_CMD_GAINED_FOCUS
  | APP_CMD_LOST_FOCUS
  | APP_CMD_CONFIG_CHANGED
  | APP_CMD_LOW_MEMORY
  | APP_CMD_START
  | APP_CMD_RESUME
  | APP_CMD_SAVE_STATE
  | APP_CMD_PAUSE
  | APP_CMD_STOP
  | APP_CMD_DESTROY

text \<open>
  The engine together with what lies outside \<^verbatim>\<open>ctx\<close>: the effects so far and the samples
  waiting in the sensor event queue.
\<close>

record world =
  ctx :: Context
  trace :: "effect list"
  sensorEvents :: "(float32 \<times> float32 \<times> float32) list"

text \<open>
  A failed \<^verbatim>\<open>assert\<close> ends the process; the result is then the error together with the
  world as it was at that point.  (The assertions are taken as compiled in; the other,
  \<^verbatim>\<open>assert(supportedConfigs)\<close>, tests the result of \<^verbatim>\<open>new\<close>, which is never null.)
\<close>

type_synonym 'a result = "(error \<times> world) + 'a"

definition final :: "world result \<Rightarrow> world" where
  \<comment> \<open>the world when the operation has returned or the process has ended\<close>
  "final r = (case r of Inl (er, w) \<Rightarrow> w | Inr w \<Rightarrow> w)"

definition emit :: "effect list \<Rightarrow> world \<Rightarrow> world" where
  "emit es w = w\<lparr>trace := trace w @ es\<rparr>"


section \<open>The operations of \<^verbatim>\<open>Engine\<close>\<close>

definition isAnimating :: "world \<Rightarrow> bool" where
  "isAnimating w = (animating (ctx w) \<noteq> 0)"

definition zero_SavedState :: SavedState where
  "zero_SavedState = \<lparr>angle = 0, saved_x = 0, saved_y = 0\<rparr>"

definition zero_Context :: "android_app \<Rightarrow> Context" where
  \<comment> \<open>\<^verbatim>\<open>memset(&ctx, 0, sizeof(ctx))\<close> followed by \<^verbatim>\<open>ctx.app = state\<close>\<close>
  "zero_Context a =
     \<lparr>app = a, sensorManager = 0, accelerometerSensor = 0, sensorEventQueue = 0,
      animating = 0, display = 0, surface = 0, glcontext = 0, width = 0, height = 0,
      state = zero_SavedState\<rparr>"

definition acquireASensorManagerInstance :: "platform \<Rightarrow> error + handle" where
  \<comment> \<open>\<^verbatim>\<open>ctx.app\<close> is the pointer just stored by \<^verbatim>\<open>init\<close>, so the first \<^verbatim>\<open>return nullptr\<close>
      is not taken; the package-name calls through JNI have no result the engine keeps\<close>
  "acquireASensorManagerInstance p =
     (let fallback = (case getInstance p of
                        None \<Rightarrow> Inl AssertionFailed
                      | Some m \<Rightarrow> Inr m)
      in case getInstanceForPackage p of
           None \<Rightarrow> fallback
         | Some mgr \<Rightarrow> if mgr \<noteq> 0 then Inr mgr else fallback)"

definition init :: "platform \<Rightarrow> android_app \<Rightarrow> world result" where
  "init p a =
     (case acquireASensorManagerInstance p of
        Inl er \<Rightarrow> Inl (er, \<lparr>ctx = zero_Context a, trace = [], sensorEvents = []\<rparr>)
      | Inr mgr \<Rightarrow>
          let c = (zero_Context a)\<lparr>sensorManager := mgr,
                                   accelerometerSensor := defaultSensor p,
                                   sensorEventQueue := createEventQueue p\<rparr>;
              c' = (case savedState a of
                      None \<Rightarrow> c
                    | Some s \<Rightarrow> c\<lparr>state := s\<rparr>)
          in Inr \<lparr>ctx = c', trace = [], sensorEvents = []\<rparr>)"

fun find_config :: "egl_config list \<Rightarrow> nat \<Rightarrow> nat \<times> handle" where
  \<comment> \<open>the \<^verbatim>\<open>for\<close> loop of \<^verbatim>\<open>initDisplay\<close> from index \<open>i\<close> on: the index it stops at and
      \<^verbatim>\<open>config\<close>, still \<^verbatim>\<open>nullptr\<close> when no configuration matched\<close>
  "find_config [] i = (i, 0)"
| "find_config (c # cs) i =
     (if red_size c = Some 8 \<and> green_size c = Some 8 \<and> blue_size c = Some 8 \<and>
         depth_size c = Some 0
      then (i, cfg c)
      else find_config cs (Suc i))"

definition initDisplay :: "egl_backend \<Rightarrow> world \<Rightarrow> (int \<times> world) result" where
  "initDisplay e w =
     (let d = getDisplay e;
          w1 = emit [EglInitialize d] w;
          numConfigs = length (configs e)
      in if numConfigs = 0 then Inl (AssertionFailed, w1)
         else
           let (i, found) = find_config (configs e) 0;
               config = (if i = numConfigs then cfg (hd (configs e)) else found)
           in if config = 0 then Inr (- 1, emit [LogW ''Unable to initialize EGLConfig''] w1)
              else
                let s = createWindowSurface e d config (window (app (ctx w)));
                    c = createContext e d config;
                    w2 = emit [EglCreateWindowSurface d config (window (app (ctx w))),
                               EglCreateContext d config,
                               EglMakeCurrent d s s c] w1
                in if \<not> makeCurrent e d s c
                   then Inr (- 1, emit [LogW ''Unable to eglMakeCurrent''] w2)
                   else
                     let w3 = w2\<lparr>ctx := (ctx w2)\<lparr>display := d, glcontext := c, surface := s,
                                                  width := surfaceWidth e,
                                                  height := surfaceHeight e,
                                                  state := (state (ctx w2))\<lparr>angle := f32_zero\<rparr>\<rparr>\<rparr>
                     in Inr (0, emit [LogOpenGLInfo, LogOpenGLInfo, LogOpenGLInfo, LogOpenGLInfo,
                                      GlHintPerspectiveFastest, GlEnableCullFace,
                                      GlShadeModelSmooth, GlDisableDepthTest] w3))"

definition termDisplay :: "world \<Rightarrow> world" where
  "termDisplay w =
     (let c = ctx w;
          w1 = (if display c \<noteq> 0
                then emit ([EglMakeCurrent (display c) 0 0 0] @
                           (if glcontext c \<noteq> 0 then [EglDestroyContext (display c) (glcontext c)]
                            else []) @
                           (if surface c \<noteq> 0 then [EglDestroySurface (display c) (surface c)]
                            else []) @
                           [EglTerminate (display c)]) w
                else w)
      in w1\<lparr>ctx := (ctx w1)\<lparr>animating := 0, display := 0, glcontext := 0, surface := 0\<rparr>\<rparr>)"

definition drawFrame :: "world \<Rightarrow> world" where
  "drawFrame w =
     (let c = ctx w
      in if display c = 0 then w
         else emit [GlClearColor (saved_x (state c), width c) (angle (state c))
                                 (saved_y (state c), height c),
                    GlClear,
                    EglSwapBuffers (display c) (surface c)] w)"

definition onInputEvent :: "input_event \<Rightarrow> world \<Rightarrow> int \<times> world" where
  "onInputEvent ev w =
     (if ev_type ev = AINPUT_EVENT_TYPE_MOTION
      then (1, w\<lparr>ctx := (ctx w)\<lparr>animating := 1,
                                 state := (state (ctx w))\<lparr>saved_x := motion_x ev,
                                                           saved_y := motion_y ev\<rparr>\<rparr>\<rparr>)
      else (0, w))"

definition sizeof_SavedState :: nat where
  \<comment> \<open>a \<^verbatim>\<open>float\<close> and two \<^verbatim>\<open>int32_t\<close>\<close>
  "sizeof_SavedState = 12"

definition onSaveState :: "world \<Rightarrow> world" where
  \<comment> \<open>\<^verbatim>\<open>malloc\<close> is taken to return a buffer; the struct is assigned into it\<close>
  "onSaveState w =
     w\<lparr>ctx := (ctx w)\<lparr>app := (app (ctx w))\<lparr>savedState := Some (state (ctx w)),
                                           savedStateSize := sizeof_SavedState\<rparr>\<rparr>\<rparr>"

definition onInitWindow :: "egl_backend \<Rightarrow> world \<Rightarrow> world result" where
  "onInitWindow e w =
     (if window (app (ctx w)) \<noteq> 0
      then (case initDisplay e w of
              Inl er \<Rightarrow> Inl er
            | Inr (rc, w') \<Rightarrow> Inr (drawFrame w'))
      else Inr w)"

definition onTermWindow :: "world \<Rightarrow> world" where
  "onTermWindow w = termDisplay w"

definition onFocus :: "bool \<Rightarrow> world \<Rightarrow> world" where
  "onFocus gained w =
     (let c = ctx w
      in if gained
         then (if accelerometerSensor c \<noteq> 0
               then emit [EnableSensor (sensorEventQueue c) (accelerometerSensor c),
                          SetEventRate (sensorEventQueue c) (accelerometerSensor c)
                                       ((1000 div 60) * 1000)] w
               else w)
         else
           (let w1 = (if accelerometerSensor c \<noteq> 0
                      then emit [DisableSensor (sensorEventQueue c) (accelerometerSensor c)] w
                      else w)
            in drawFrame (w1\<lparr>ctx := (ctx w1)\<lparr>animating := 0\<rparr>\<rparr>)))"

definition processSensorEvents :: "world \<Rightarrow> world" where
  \<comment> \<open>the \<^verbatim>\<open>while\<close> loop takes the waiting samples one by one until the queue is empty\<close>
  "processSensorEvents w =
     (if accelerometerSensor (ctx w) \<noteq> 0
      then (emit (map (\<lambda>(ax, ay, az). LogAccelerometer ax ay az) (sensorEvents w)) w)
             \<lparr>sensorEvents := []\<rparr>
      else w)"

definition animate :: "world \<Rightarrow> world" where
  "animate w =
     (if animating (ctx w) \<noteq> 0
      then
        (let a = f32_add (angle (state (ctx w))) f32_hundredth;
             a' = (if f32_gt a f32_one then f32_zero else a)
         in drawFrame (w\<lparr>ctx := (ctx w)\<lparr>state := (state (ctx w))\<lparr>angle := a'\<rparr>\<rparr>\<rparr>))
      else w)"


section \<open>The callbacks and the loop of \<^verbatim>\<open>android_main\<close>\<close>

definition onAppCmd :: "egl_backend \<Rightarrow> app_cmd \<Rightarrow> world \<Rightarrow> world result" where
  \<comment> \<open>the \<^verbatim>\<open>switch\<close> of the \<^verbatim>\<open>onAppCmd\<close> callback\<close>
  "onAppCmd e cmd w =
     (case cmd of
        APP_CMD_SAVE_STATE \<Rightarrow> Inr (onSaveState w)
      | APP_CMD_INIT_WINDOW \<Rightarrow> onInitWindow e w
      | APP_CMD_TERM_WINDOW \<Rightarrow> Inr (onTermWindow w)
      | APP_CMD_GAINED_FOCUS \<Rightarrow> Inr (onFocus True w)
      | APP_CMD_LOST_FOCUS \<Rightarrow> Inr (onFocus False w)
      | _ \<Rightarrow> Inr w)"

text \<open>
  \<^verbatim>\<open>source->process(state, source)\<close> is the host's code.  What it can do to the engine is
  write the fields of \<^verbatim>\<open>android_app\<close> the engine reads and call the two callbacks, in any
  order; a source is the list of these steps.
\<close>

datatype host_action =
    SetWindow handle
  | SetDestroyRequested int
  | OnAppCmd app_cmd
  | OnInputEvent input_event

fun host_step :: "egl_backend \<Rightarrow> host_action \<Rightarrow> world \<Rightarrow> world result" where
  "host_step e (SetWindow h) w = Inr (w\<lparr>ctx := (ctx w)\<lparr>app := (app (ctx w))\<lparr>window := h\<rparr>\<rparr>\<rparr>)"
| "host_step e (SetDestroyRequested n) w =
     Inr (w\<lparr>ctx := (ctx w)\<lparr>app := (app (ctx w))\<lparr>destroyRequested := n\<rparr>\<rparr>\<rparr>)"
| "host_step e (OnAppCmd cmd) w = onAppCmd e cmd w"
| "host_step e (OnInputEvent ev) w = Inr (snd (onInputEvent ev w))"

fun process :: "egl_backend \<Rightarrow> host_action list \<Rightarrow> world \<Rightarrow> world result" where
  "process e [] w = Inr w"
| "process e (a # as) w =
     (case host_step e a w of
        Inl er \<Rightarrow> Inl er
      | Inr w' \<Rightarrow> process e as w')"

text \<open>
  One return of \<^verbatim>\<open>ALooper_pollAll\<close>: the identifier (negative when no event source is
  ready), the source it hands back (\<open>None\<close> is \<^verbatim>\<open>nullptr\<close>), the samples that reached the
  sensor queue while the call waited, and the graphics backend as it answers while this
  event is processed.
\<close>

record poll_result =
  pr_ident :: int
  pr_source :: "host_action list option"
  pr_arrived :: "(float32 \<times> float32 \<times> float32) list"
  pr_egl :: egl_backend

datatype run = Returned world | Waiting world | Aborted error world

fun world_of :: "run \<Rightarrow> world" where
  "world_of (Returned w) = w"
| "world_of (Waiting w) = w"
| "world_of (Aborted er w) = w"

definition poll_timeout :: "world \<Rightarrow> int" where
  \<comment> \<open>\<^verbatim>\<open>engine.isAnimating() ? 0 : -1\<close>\<close>
  "poll_timeout w = (if isAnimating w then 0 else - 1)"

definition pollAll :: "poll_result \<Rightarrow> world \<Rightarrow> world" where
  \<comment> \<open>the call \<^verbatim>\<open>ALooper_pollAll(engine.isAnimating() ? 0 : -1, ...)\<close> returning \<open>r\<close>\<close>
  "pollAll r w =
     (emit [PollAll (poll_timeout w)] w)\<lparr>sensorEvents := sensorEvents w @ pr_arrived r\<rparr>"

definition dispatch :: "poll_result \<Rightarrow> world \<Rightarrow> world result" where
  \<comment> \<open>the body of the inner \<^verbatim>\<open>while\<close> up to the test of \<^verbatim>\<open>destroyRequested\<close>\<close>
  "dispatch r w =
     (case (case pr_source r of
              None \<Rightarrow> Inr w
            | Some acts \<Rightarrow> process (pr_egl r) acts w) of
        Inl er \<Rightarrow> Inl er
      | Inr w' \<Rightarrow> Inr (if pr_ident r = LOOPER_ID_USER then processSensorEvents w' else w'))"

text \<open>
  The two nested loops of \<^verbatim>\<open>android_main\<close>, run against the list of what the successive
  calls of \<^verbatim>\<open>ALooper_pollAll\<close> return.  Every pass of the inner \<^verbatim>\<open>while\<close> starts with one
  call; a non-negative identifier runs its body and comes back to the call, a negative one
  leaves it for \<^verbatim>\<open>engine.animate()\<close>, after which the outer \<^verbatim>\<open>while (true)\<close> enters the
  inner loop again, at the call.  When the list is used up the loop is \<open>Waiting\<close> in
  \<^verbatim>\<open>ALooper_pollAll\<close> for the host.
\<close>

fun main_loop :: "world \<Rightarrow> poll_result list \<Rightarrow> run" where
  "main_loop w [] = Waiting w"
| "main_loop w (r # rs) =
     (let w1 = pollAll r w
      in if 0 \<le> pr_ident r
         then (case dispatch r w1 of
                 Inl (er, w2) \<Rightarrow> Aborted er w2
               | Inr w2 \<Rightarrow>
                   if destroyRequested (app (ctx w2)) \<noteq> 0
                   then Returned (termDisplay w2)
                   else main_loop w2 rs)
         else main_loop (animate w1) rs)"

definition android_main :: "platform \<Rightarrow> android_app \<Rightarrow> poll_result list \<Rightarrow> run" where
  "android_main p a script =
     (case init p a of
        Inl (er, w) \<Rightarrow> Aborted er w
      | Inr w \<Rightarrow> main_loop w script)"


section \<open>Notions the properties are stated with\<close>

definition rt_valid :: "Context \<Rightarrow> bool" where
  "rt_valid c = (display c \<noteq> 0 \<and> surface c \<noteq> 0 \<and> glcontext c \<noteq> 0)"

definition rt_invalid :: "Context \<Rightarrow> bool" where
  "rt_invalid c = (display c = 0 \<and> surface c = 0 \<and> glcontext c = 0)"

definition rt_all_or_nothing :: "Context \<Rightarrow> bool" where
  "rt_all_or_nothing c = (rt_valid c \<or> rt_invalid c)"

definition chosen_config :: "egl_backend \<Rightarrow> handle" where
  \<comment> \<open>the configuration \<^verbatim>\<open>initDisplay\<close> settles on: the first exact match, else the first\<close>
  "chosen_config e =
     (let (i, found) = find_config (configs e) 0
      in if i = length (configs e) then cfg (hd (configs e)) else found)"

definition created_surface :: "egl_backend \<Rightarrow> world \<Rightarrow> handle" where
  \<comment> \<open>what \<^verbatim>\<open>eglCreateWindowSurface\<close> answers in \<^verbatim>\<open>initDisplay\<close>\<close>
  "created_surface e w =
     createWindowSurface e (getDisplay e) (chosen_config e) (window (app (ctx w)))"

definition created_context :: "egl_backend \<Rightarrow> handle" where
  \<comment> \<open>what \<^verbatim>\<open>eglCreateContext\<close> answers in \<^verbatim>\<open>initDisplay\<close>\<close>
  "created_context e = createContext e (getDisplay e) (chosen_config e)"

definition acquires_valid_only :: "egl_backend \<Rightarrow> bool" where
  \<comment> \<open>a backend on which, for every window, \<^verbatim>\<open>eglMakeCurrent\<close> does not succeed on the
      display with the surface and context created in \<^verbatim>\<open>initDisplay\<close> unless all three are
      valid; what it does with other handles, the release call among them, is left open\<close>
  "acquires_valid_only e =
     (\<forall>win. makeCurrent e (getDisplay e)
              (createWindowSurface e (getDisplay e) (chosen_config e) win) (created_context e) \<longrightarrow>
            getDisplay e \<noteq> 0 \<and>
            createWindowSurface e (getDisplay e) (chosen_config e) win \<noteq> 0 \<and>
            created_context e \<noteq> 0)"

definition return_code :: "(int \<times> world) result \<Rightarrow> int option" where
  \<comment> \<open>what \<^verbatim>\<open>initDisplay\<close> returned, if it returned\<close>
  "return_code r = (case r of Inl (er, w) \<Rightarrow> None | Inr (rc, w) \<Rightarrow> Some rc)"

definition acquisition :: "(int \<times> world) result \<Rightarrow> world" where
  \<comment> \<open>the world \<^verbatim>\<open>initDisplay\<close> left\<close>
  "acquisition r = (case r of Inl (er, w) \<Rightarrow> w | Inr (rc, w) \<Rightarrow> w)"

fun is_motion :: "host_action \<Rightarrow> bool" where
  "is_motion (OnInputEvent ev) = (ev_type ev = AINPUT_EVENT_TYPE_MOTION)"
| "is_motion _ = False"

definition motion_free :: "poll_result list \<Rightarrow> bool" where
  \<comment> \<open>no source of the script routes a motion event\<close>
  "motion_free script =
     list_all (\<lambda>r. case pr_source r of
                      None \<Rightarrow> True
                    | Some acts \<Rightarrow> list_all (\<lambda>a. \<not> is_motion a) acts) script"

fun is_frame :: "effect \<Rightarrow> bool" where
  "is_frame (EglSwapBuffers d s) = True"
| "is_frame _ = False"

definition frames :: "effect list \<Rightarrow> nat" where
  \<comment> \<open>the number of frames presented\<close>
  "frames t = length (filter is_frame t)"

definition microseconds_per_event :: "int \<Rightarrow> int" where
  \<comment> \<open>the whole microseconds between two events at \<open>hz\<close> events per second\<close>
  "microseconds_per_event hz = 1000000 div hz"

definition frame_effects :: "Context \<Rightarrow> effect list" where
  \<comment> \<open>the backend calls of one \<^verbatim>\<open>drawFrame\<close> on a target with a display\<close>
  "frame_effects c =
     [GlClearColor (saved_x (state c), width c) (angle (state c)) (saved_y (state c), height c),
      GlClear,
      EglSwapBuffers (display c) (surface c)]"

definition release_effects :: "Context \<Rightarrow> effect list" where
  \<comment> \<open>the backend calls of one \<^verbatim>\<open>termDisplay\<close> on a target with a display\<close>
  "release_effects c =
     [EglMakeCurrent (display c) 0 0 0] @
     (if glcontext c \<noteq> 0 then [EglDestroyContext (display c) (glcontext c)] else []) @
     (if surface c \<noteq> 0 then [EglDestroySurface (display c) (surface c)] else []) @
     [EglTerminate (display c)]"

subsection \<open>Concrete surroundings\<close>

definition example_app :: android_app where
  "example_app =
     \<lparr>window = 7, savedState = None, savedStateSize = 0, destroyRequested = 0, looper = 5\<rparr>"

definition example_platform :: platform where
  "example_platform =
     \<lparr>getInstanceForPackage = Some 11, getInstance = Some 12, defaultSensor = 13,
      createEventQueue = 14\<rparr>"

definition example_egl :: egl_backend where
  \<comment> \<open>two configurations, the second without depth bits; every call succeeds\<close>
  "example_egl =
     \<lparr>getDisplay = 3,
      configs = [\<lparr>cfg = 21, red_size = Some 8, green_size = Some 8, blue_size = Some 8,
                  depth_size = Some 24\<rparr>,
                 \<lparr>cfg = 22, red_size = Some 8, green_size = Some 8, blue_size = Some 8,
                  depth_size = Some 0\<rparr>],
      createWindowSurface = (\<lambda>d c win. 31),
      createContext = (\<lambda>d c. 41),
      makeCurrent = (\<lambda>d s c. d \<noteq> 0 \<and> s \<noteq> 0 \<and> c \<noteq> 0),
      surfaceWidth = 1080,
      surfaceHeight = 1920\<rparr>"

definition unbindable_egl :: egl_backend where
  \<comment> \<open>as \<open>example_egl\<close>, but \<^verbatim>\<open>eglMakeCurrent\<close> fails\<close>
  "unbindable_egl = example_egl\<lparr>makeCurrent := (\<lambda>d s c. False)\<rparr>"

definition exhausted_egl :: egl_backend where
  \<comment> \<open>a backend that can create neither a surface nor a context.  \<^verbatim>\<open>eglMakeCurrent\<close> with
      \<^verbatim>\<open>EGL_NO_SURFACE\<close> and \<^verbatim>\<open>EGL_NO_CONTEXT\<close> is the documented call that releases the
      current context, and succeeds\<close>
  "exhausted_egl =
     example_egl\<lparr>createWindowSurface := (\<lambda>d c win. 0),
                 createContext := (\<lambda>d c. 0),
                 makeCurrent := (\<lambda>d s c. d \<noteq> 0 \<and> ((s = 0 \<and> c = 0) \<or> (s \<noteq> 0 \<and> c \<noteq> 0)))\<rparr>"

definition conforming_egl :: egl_backend where
  \<comment> \<open>as \<open>example_egl\<close>, and \<^verbatim>\<open>eglMakeCurrent\<close> also accepts the release call\<close>
  "conforming_egl =
     example_egl\<lparr>makeCurrent := (\<lambda>d s c. d \<noteq> 0 \<and> ((s = 0 \<and> c = 0) \<or> (s \<noteq> 0 \<and> c \<noteq> 0)))\<rparr>"

definition destroy_request :: "egl_backend \<Rightarrow> poll_result" where
  \<comment> \<open>the host asks the activity to end: its command source sets \<^verbatim>\<open>destroyRequested\<close> and
      hands \<^verbatim>\<open>APP_CMD_DESTROY\<close> to the callback\<close>
  "destroy_request e =
     \<lparr>pr_ident = 1, pr_source = Some [SetDestroyRequested 1, OnAppCmd APP_CMD_DESTROY],
      pr_arrived = [], pr_egl = e\<rparr>"

definition command :: "app_cmd \<Rightarrow> poll_result" where
  \<comment> \<open>the host hands one command to the callback, with \<open>example_egl\<close> as the backend\<close>
  "command c = \<lparr>pr_ident = 1, pr_source = Some [OnAppCmd c], pr_arrived = [], pr_egl = example_egl\<rparr>"

definition input :: "input_event \<Rightarrow> poll_result" where
  "input ev = \<lparr>pr_ident = 2, pr_source = Some [OnInputEvent ev], pr_arrived = [], pr_egl = example_egl\<rparr>"

definition timeout :: poll_result where
  \<comment> \<open>\<^verbatim>\<open>ALooper_pollAll\<close> returns \<^verbatim>\<open>ALOOPER_POLL_TIMEOUT\<close>: nothing is ready\<close>
  "timeout = \<lparr>pr_ident = - 3, pr_source = None, pr_arrived = [], pr_egl = example_egl\<rparr>"

definition example_motion :: input_event where
  "example_motion = \<lparr>ev_type = AINPUT_EVENT_TYPE_MOTION, motion_x = 120, motion_y = 340\<rparr>"

definition example_key :: input_event where
  "example_key = \<lparr>ev_type = AINPUT_EVENT_TYPE_KEY, motion_x = 0, motion_y = 0\<rparr>"

definition started :: world where
  \<comment> \<open>the engine after \<^verbatim>\<open>init\<close>\<close>
  "started = final (init example_platform example_app)"

definition touched :: world where
  \<comment> \<open>a pointer event arrives before any window\<close>
  "touched = snd (onInputEvent example_motion started)"

definition drawing :: world where
  \<comment> \<open>window acquired, then a pointer event\<close>
  "drawing = snd (onInputEvent example_motion (final (onInitWindow example_egl started)))"

definition scenario :: world where
  \<comment> \<open>a bound target, animating, with \<open>x = 120\<close>, \<open>y = 340\<close> and \<open>angle = 0.37f\<close>\<close>
  "scenario =
     drawing\<lparr>ctx := (ctx drawing)\<lparr>state := \<lparr>angle = 0x3EBD70A4, saved_x = 120, saved_y = 340\<rparr>\<rparr>\<rparr>"

definition restored :: world where
  \<comment> \<open>a new engine, started from the buffer that \<open>scenario\<close> saved\<close>
  "restored =
     final (init example_platform
              (example_app\<lparr>savedState := savedState (app (ctx (onSaveState scenario)))\<rparr>))"


section \<open>Basic facts\<close>

lemma ctx_emit [simp]: "ctx (emit es w) = ctx w"
  by (simp add: emit_def)

lemma trace_emit [simp]: "trace (emit es w) = trace w @ es"
  by (simp add: emit_def)

lemma sensorEvents_emit [simp]: "sensorEvents (emit es w) = sensorEvents w"
  by (simp add: emit_def)

lemma emit_Nil [simp]: "emit [] w = w"
  by (simp add: emit_def)

lemma final_simps [simp]: "final (Inl (er, w)) = w" "final (Inr w) = w"
  by (simp_all add: final_def)

lemma ctx_termDisplay:
  "ctx (termDisplay w) = (ctx w)\<lparr>animating := 0, display := 0, glcontext := 0, surface := 0\<rparr>"
  by (simp add: termDisplay_def Let_def)

lemma sensorEvents_termDisplay: "sensorEvents (termDisplay w) = sensorEvents w"
  by (simp add: termDisplay_def Let_def)

lemma trace_termDisplay:
  "trace (termDisplay w) =
     trace w @ (if display (ctx w) \<noteq> 0 then release_effects (ctx w) else [])"
  by (simp add: termDisplay_def release_effects_def Let_def)

lemma termDisplay_released:
  "display (ctx w) = 0 \<Longrightarrow>
   termDisplay w = w\<lparr>ctx := (ctx w)\<lparr>animating := 0, display := 0, glcontext := 0, surface := 0\<rparr>\<rparr>"
  by (simp add: termDisplay_def Let_def)

lemma ctx_drawFrame [simp]: "ctx (drawFrame w) = ctx w"
  by (simp add: drawFrame_def Let_def)

lemma sensorEvents_drawFrame [simp]: "sensorEvents (drawFrame w) = sensorEvents w"
  by (simp add: drawFrame_def Let_def)

lemma initDisplay_failure:
  "initDisplay e w = Inr (rc, w') \<Longrightarrow> rc \<noteq> 0 \<Longrightarrow> ctx w' = ctx w \<and> rc = - 1"
  by (auto simp: initDisplay_def Let_def split: if_splits prod.splits)

lemma initDisplay_abort:
  "initDisplay e w = Inl (er, w') \<Longrightarrow> ctx w' = ctx w \<and> configs e = []"
  by (auto simp: initDisplay_def Let_def split: if_splits prod.splits)

lemma initDisplay_success:
  "initDisplay e w = Inr (0, w') \<Longrightarrow>
   makeCurrent e (getDisplay e) (surface (ctx w')) (glcontext (ctx w')) \<and>
   ctx w' = (ctx w)\<lparr>display := getDisplay e, glcontext := glcontext (ctx w'),
                    surface := surface (ctx w'), width := surfaceWidth e,
                    height := surfaceHeight e,
                    state := (state (ctx w))\<lparr>angle := f32_zero\<rparr>\<rparr>"
  by (auto simp: initDisplay_def Let_def split: if_splits prod.splits)

lemma initDisplay_sensorEvents:
  "sensorEvents (acquisition (initDisplay e w)) = sensorEvents w"
  by (auto simp: initDisplay_def acquisition_def Let_def split: if_splits prod.splits)

lemma started_eq:
  "started = \<lparr>ctx = \<lparr>app = example_app, sensorManager = 11, accelerometerSensor = 13,
      sensorEventQueue = 14, animating = 0, display = 0, surface = 0, glcontext = 0,
      width = 0, height = 0, state = zero_SavedState\<rparr>, trace = [], sensorEvents = []\<rparr>"
  by (simp add: started_def init_def acquireASensorManagerInstance_def example_platform_def
      example_app_def zero_Context_def Let_def)

lemma initDisplay_example:
  "initDisplay example_egl started =
     Inr (0, \<lparr>ctx = \<lparr>app = example_app, sensorManager = 11, accelerometerSensor = 13,
                sensorEventQueue = 14, animating = 0, display = 3, surface = 31, glcontext = 41,
                width = 1080, height = 1920, state = zero_SavedState\<rparr>,
              trace = [EglInitialize 3, EglCreateWindowSurface 3 22 7, EglCreateContext 3 22,
                       EglMakeCurrent 3 31 31 41, LogOpenGLInfo, LogOpenGLInfo, LogOpenGLInfo,
                       LogOpenGLInfo, GlHintPerspectiveFastest, GlEnableCullFace,
                       GlShadeModelSmooth, GlDisableDepthTest],
              sensorEvents = []\<rparr>)"
  by (simp add: started_eq initDisplay_def example_egl_def example_app_def Let_def emit_def
      zero_SavedState_def f32_zero_def)

lemma initDisplay_unbindable:
  "initDisplay unbindable_egl started =
     Inr (- 1, started\<lparr>trace := [EglInitialize 3, EglCreateWindowSurface 3 22 7,
                                  EglCreateContext 3 22, EglMakeCurrent 3 31 31 41,
                                  LogW ''Unable to eglMakeCurrent'']\<rparr>)"
  by (simp add: started_eq initDisplay_def unbindable_egl_def example_egl_def example_app_def
      Let_def emit_def)

lemma initDisplay_exhausted:
  "initDisplay exhausted_egl started =
     Inr (0, \<lparr>ctx = \<lparr>app = example_app, sensorManager = 11, accelerometerSensor = 13,
                sensorEventQueue = 14, animating = 0, display = 3, surface = 0, glcontext = 0,
                width = 1080, height = 1920, state = zero_SavedState\<rparr>,
              trace = [EglInitialize 3, EglCreateWindowSurface 3 22 7, EglCreateContext 3 22,
                       EglMakeCurrent 3 0 0 0, LogOpenGLInfo, LogOpenGLInfo, LogOpenGLInfo,
                       LogOpenGLInfo, GlHintPerspectiveFastest, GlEnableCullFace,
                       GlShadeModelSmooth, GlDisableDepthTest],
              sensorEvents = []\<rparr>)"
  by (simp add: started_eq initDisplay_def exhausted_egl_def example_egl_def example_app_def
      Let_def emit_def zero_SavedState_def f32_zero_def)

lemma acquires_valid_only_example: "acquires_valid_only example_egl"
  by (simp add: acquires_valid_only_def created_context_def example_egl_def)

lemma acquires_valid_only_conforming: "acquires_valid_only conforming_egl"
  by (simp add: acquires_valid_only_def created_context_def conforming_egl_def example_egl_def)

lemma not_acquires_valid_only_exhausted: "\<not> acquires_valid_only exhausted_egl"
  by (simp add: acquires_valid_only_def created_context_def exhausted_egl_def example_egl_def)

lemma final_init_rt: "rt_invalid (ctx (final (init p a)))"
  by (simp add: init_def rt_invalid_def zero_Context_def Let_def split: sum.splits option.splits)

lemma rt_termDisplay: "rt_invalid (ctx (termDisplay w))"
  by (simp add: rt_invalid_def ctx_termDisplay)

lemma initDisplay_return_code:
  "return_code (initDisplay e w) = Some rc \<longleftrightarrow> (\<exists>w'. initDisplay e w = Inr (rc, w'))"
  by (auto simp: return_code_def split: sum.splits)

lemma acquisition_Inr [simp]: "acquisition (Inr (rc, w)) = w"
  by (simp add: acquisition_def)

lemma acquisition_Inl [simp]: "acquisition (Inl (er, w)) = w"
  by (simp add: acquisition_def)

lemma initDisplay_not_acquired:
  "return_code (initDisplay e w) \<noteq> Some 0 \<Longrightarrow> ctx (acquisition (initDisplay e w)) = ctx w"
proof (cases "initDisplay e w")
  case (Inl a)
  then show ?thesis
    using initDisplay_abort [of e w "fst a" "snd a"] by (cases a) simp
next
  case (Inr b)
  assume "return_code (initDisplay e w) \<noteq> Some 0"
  with Inr have "fst b \<noteq> 0"
    by (cases b) (simp add: return_code_def)
  then show ?thesis
    using Inr initDisplay_failure [of e w "fst b" "snd b"] by (cases b) simp
qed

lemma initDisplay_acquired:
  assumes "return_code (initDisplay e w) = Some 0"
  shows "makeCurrent e (display (ctx (acquisition (initDisplay e w))))
           (surface (ctx (acquisition (initDisplay e w))))
           (glcontext (ctx (acquisition (initDisplay e w))))"
    and "display (ctx (acquisition (initDisplay e w))) = getDisplay e"
    and "state (ctx (acquisition (initDisplay e w))) = (state (ctx w))\<lparr>angle := f32_zero\<rparr>"
    and "width (ctx (acquisition (initDisplay e w))) = surfaceWidth e"
    and "height (ctx (acquisition (initDisplay e w))) = surfaceHeight e"
    and "animating (ctx (acquisition (initDisplay e w))) = animating (ctx w)"
    and "app (ctx (acquisition (initDisplay e w))) = app (ctx w)"
proof -
  from assms obtain w' where eq: "initDisplay e w = Inr (0, w')"
    by (auto simp: initDisplay_return_code)
  note s = initDisplay_success [OF eq]
  have c: "ctx w' = (ctx w)\<lparr>display := getDisplay e, glcontext := glcontext (ctx w'),
                    surface := surface (ctx w'), width := surfaceWidth e,
                    height := surfaceHeight e,
                    state := (state (ctx w))\<lparr>angle := f32_zero\<rparr>\<rparr>"
    using s by blast
  have d: "display (ctx w') = getDisplay e"
    by (subst c) simp
  show "display (ctx (acquisition (initDisplay e w))) = getDisplay e"
    using d eq by simp
  show "makeCurrent e (display (ctx (acquisition (initDisplay e w))))
           (surface (ctx (acquisition (initDisplay e w))))
           (glcontext (ctx (acquisition (initDisplay e w))))"
    using s d eq by simp
  show "state (ctx (acquisition (initDisplay e w))) = (state (ctx w))\<lparr>angle := f32_zero\<rparr>"
    unfolding eq acquisition_Inr by (subst c) simp
  show "width (ctx (acquisition (initDisplay e w))) = surfaceWidth e"
    unfolding eq acquisition_Inr by (subst c) simp
  show "height (ctx (acquisition (initDisplay e w))) = surfaceHeight e"
    unfolding eq acquisition_Inr by (subst c) simp
  show "animating (ctx (acquisition (initDisplay e w))) = animating (ctx w)"
    unfolding eq acquisition_Inr by (subst c) simp
  show "app (ctx (acquisition (initDisplay e w))) = app (ctx w)"
    unfolding eq acquisition_Inr by (subst c) simp
qed

lemma initDisplay_created:
  assumes "return_code (initDisplay e w) = Some 0"
  shows "surface (ctx (acquisition (initDisplay e w))) = created_surface e w"
    and "glcontext (ctx (acquisition (initDisplay e w))) = created_context e"
proof -
  from assms obtain w' where eq: "initDisplay e w = Inr (0, w')"
    by (auto simp: initDisplay_return_code)
  from eq have "surface (ctx w') = created_surface e w \<and> glcontext (ctx w') = created_context e"
    by (auto simp: initDisplay_def created_surface_def created_context_def chosen_config_def
        Let_def split: if_splits prod.splits)
  then show "surface (ctx (acquisition (initDisplay e w))) = created_surface e w"
    and "glcontext (ctx (acquisition (initDisplay e w))) = created_context e"
    using eq by simp_all
qed

lemma initDisplay_rt_valid_iff:
  assumes "return_code (initDisplay e w) = Some 0"
  shows "rt_valid (ctx (acquisition (initDisplay e w))) \<longleftrightarrow>
         getDisplay e \<noteq> 0 \<and> created_surface e w \<noteq> 0 \<and> created_context e \<noteq> 0"
  by (simp add: rt_valid_def initDisplay_created [OF assms] initDisplay_acquired(2) [OF assms])

lemma initDisplay_rt:
  assumes "rt_all_or_nothing (ctx w)" and "acquires_valid_only e"
  shows "rt_all_or_nothing (ctx (acquisition (initDisplay e w)))"
proof (cases "return_code (initDisplay e w) = Some 0")
  case True
  have "makeCurrent e (getDisplay e) (created_surface e w) (created_context e)"
    using initDisplay_acquired(1,2) [OF True] initDisplay_created [OF True] by simp
  then have "getDisplay e \<noteq> 0 \<and> created_surface e w \<noteq> 0 \<and> created_context e \<noteq> 0"
    using assms(2) by (simp add: acquires_valid_only_def created_surface_def)
  then have "rt_valid (ctx (acquisition (initDisplay e w)))"
    by (simp add: initDisplay_rt_valid_iff [OF True])
  then show ?thesis by (simp add: rt_all_or_nothing_def)
next
  case False
  then show ?thesis using assms(1) by (simp add: initDisplay_not_acquired)
qed

lemma onInitWindow_example:
  "onInitWindow example_egl started =
     Inr \<lparr>ctx = \<lparr>app = example_app, sensorManager = 11, accelerometerSensor = 13,
              sensorEventQueue = 14, animating = 0, display = 3, surface = 31, glcontext = 41,
              width = 1080, height = 1920, state = zero_SavedState\<rparr>,
            trace = [EglInitialize 3, EglCreateWindowSurface 3 22 7, EglCreateContext 3 22,
                     EglMakeCurrent 3 31 31 41, LogOpenGLInfo, LogOpenGLInfo, LogOpenGLInfo,
                     LogOpenGLInfo, GlHintPerspectiveFastest, GlEnableCullFace,
                     GlShadeModelSmooth, GlDisableDepthTest,
                     GlClearColor (0, 1080) 0 (0, 1920), GlClear, EglSwapBuffers 3 31],
            sensorEvents = []\<rparr>"
  unfolding onInitWindow_def initDisplay_example
  by (simp add: started_eq example_app_def drawFrame_def emit_def zero_SavedState_def)

lemma drawing_eq:
  "drawing =
     \<lparr>ctx = \<lparr>app = example_app, sensorManager = 11, accelerometerSensor = 13,
              sensorEventQueue = 14, animating = 1, display = 3, surface = 31, glcontext = 41,
              width = 1080, height = 1920,
              state = \<lparr>angle = 0, saved_x = 120, saved_y = 340\<rparr>\<rparr>,
            trace = [EglInitialize 3, EglCreateWindowSurface 3 22 7, EglCreateContext 3 22,
                     EglMakeCurrent 3 31 31 41, LogOpenGLInfo, LogOpenGLInfo, LogOpenGLInfo,
                     LogOpenGLInfo, GlHintPerspectiveFastest, GlEnableCullFace,
                     GlShadeModelSmooth, GlDisableDepthTest,
                     GlClearColor (0, 1080) 0 (0, 1920), GlClear, EglSwapBuffers 3 31],
            sensorEvents = []\<rparr>"
  unfolding drawing_def onInitWindow_example
  by (simp add: onInputEvent_def example_motion_def zero_SavedState_def)

lemma touched_eq:
  "touched =
     \<lparr>ctx = \<lparr>app = example_app, sensorManager = 11, accelerometerSensor = 13,
              sensorEventQueue = 14, animating = 1, display = 0, surface = 0, glcontext = 0,
              width = 0, height = 0, state = \<lparr>angle = 0, saved_x = 120, saved_y = 340\<rparr>\<rparr>,
      trace = [], sensorEvents = []\<rparr>"
  by (simp add: touched_def started_eq onInputEvent_def example_motion_def zero_SavedState_def)

lemma scenario_eq:
  "scenario =
     \<lparr>ctx = \<lparr>app = example_app, sensorManager = 11, accelerometerSensor = 13,
              sensorEventQueue = 14, animating = 1, display = 3, surface = 31, glcontext = 41,
              width = 1080, height = 1920,
              state = \<lparr>angle = 0x3EBD70A4, saved_x = 120, saved_y = 340\<rparr>\<rparr>,
            trace = [EglInitialize 3, EglCreateWindowSurface 3 22 7, EglCreateContext 3 22,
                     EglMakeCurrent 3 31 31 41, LogOpenGLInfo, LogOpenGLInfo, LogOpenGLInfo,
                     LogOpenGLInfo, GlHintPerspectiveFastest, GlEnableCullFace,
                     GlShadeModelSmooth, GlDisableDepthTest,
                     GlClearColor (0, 1080) 0 (0, 1920), GlClear, EglSwapBuffers 3 31],
            sensorEvents = []\<rparr>"
  by (simp add: scenario_def drawing_eq)

subsection \<open>What each operation does to the fields\<close>

lemma initDisplay_state:
  "state (ctx (acquisition (initDisplay e w))) =
     (if return_code (initDisplay e w) = Some 0 then (state (ctx w))\<lparr>angle := f32_zero\<rparr>
      else state (ctx w))"
  by (simp add: initDisplay_acquired(3) initDisplay_not_acquired)

lemma initDisplay_animating:
  "animating (ctx (acquisition (initDisplay e w))) = animating (ctx w)"
  by (cases "return_code (initDisplay e w) = Some 0")
     (simp_all add: initDisplay_acquired(6) initDisplay_not_acquired)

lemma initDisplay_app:
  "app (ctx (acquisition (initDisplay e w))) = app (ctx w)"
  by (cases "return_code (initDisplay e w) = Some 0")
     (simp_all add: initDisplay_acquired(7) initDisplay_not_acquired)

lemma initDisplay_trace: "prefix (trace w) (trace (acquisition (initDisplay e w)))"
  by (auto simp: initDisplay_def Let_def split: if_splits prod.splits)

lemma final_onInitWindow:
  "final (onInitWindow e w) =
     (if window (app (ctx w)) \<noteq> 0
      then (if return_code (initDisplay e w) = None then acquisition (initDisplay e w)
            else drawFrame (acquisition (initDisplay e w)))
      else w)"
  by (auto simp: onInitWindow_def return_code_def split: sum.splits)

lemma ctx_onInitWindow:
  "ctx (final (onInitWindow e w)) =
     (if window (app (ctx w)) \<noteq> 0 then ctx (acquisition (initDisplay e w)) else ctx w)"
  by (simp add: final_onInitWindow)

lemma drawFrame_trace: "prefix (trace w) (trace (drawFrame w))"
  by (simp add: drawFrame_def Let_def)

lemma onInitWindow_trace: "prefix (trace w) (trace (final (onInitWindow e w)))"
  using initDisplay_trace [of w e] drawFrame_trace [of "acquisition (initDisplay e w)"]
  by (auto simp: final_onInitWindow intro: prefix_order.trans)

lemma ctx_onSaveState:
  "ctx (onSaveState w) =
     (ctx w)\<lparr>app := (app (ctx w))\<lparr>savedState := Some (state (ctx w)),
                                   savedStateSize := sizeof_SavedState\<rparr>\<rparr>"
  by (simp add: onSaveState_def)

lemma trace_onSaveState [simp]: "trace (onSaveState w) = trace w"
  by (simp add: onSaveState_def)

lemma ctx_onFocus:
  "ctx (onFocus gained w) = (if gained then ctx w else (ctx w)\<lparr>animating := 0\<rparr>)"
  by (simp add: onFocus_def Let_def)

lemma onFocus_trace: "prefix (trace w) (trace (onFocus gained w))"
  by (simp add: onFocus_def drawFrame_def Let_def)

lemma ctx_processSensorEvents [simp]: "ctx (processSensorEvents w) = ctx w"
  by (simp add: processSensorEvents_def)

lemma processSensorEvents_trace: "prefix (trace w) (trace (processSensorEvents w))"
  by (simp add: processSensorEvents_def)

lemma termDisplay_trace: "prefix (trace w) (trace (termDisplay w))"
  by (simp add: trace_termDisplay)

lemma ctx_animate:
  "ctx (animate w) =
     (if animating (ctx w) \<noteq> 0
      then (ctx w)\<lparr>state := (state (ctx w))
              \<lparr>angle := (if f32_gt (f32_add (angle (state (ctx w))) f32_hundredth) f32_one
                         then f32_zero
                         else f32_add (angle (state (ctx w))) f32_hundredth)\<rparr>\<rparr>
      else ctx w)"
  by (simp add: animate_def Let_def)

lemma animate_trace: "prefix (trace w) (trace (animate w))"
  by (simp add: animate_def drawFrame_def Let_def)

lemma ctx_pollAll [simp]: "ctx (pollAll r w) = ctx w"
  by (simp add: pollAll_def)

lemma trace_pollAll: "trace (pollAll r w) = trace w @ [PollAll (poll_timeout w)]"
  by (simp add: pollAll_def)

lemma ctx_onInputEvent:
  "ctx (snd (onInputEvent ev w)) =
     (if ev_type ev = AINPUT_EVENT_TYPE_MOTION
      then (ctx w)\<lparr>animating := 1,
                    state := (state (ctx w))\<lparr>saved_x := motion_x ev, saved_y := motion_y ev\<rparr>\<rparr>
      else ctx w)"
  by (simp add: onInputEvent_def)

lemma trace_onInputEvent [simp]: "trace (snd (onInputEvent ev w)) = trace w"
  by (simp add: onInputEvent_def)

lemma final_onAppCmd:
  "final (onAppCmd e cmd w) =
     (if cmd = APP_CMD_SAVE_STATE then onSaveState w
      else if cmd = APP_CMD_INIT_WINDOW then final (onInitWindow e w)
      else if cmd = APP_CMD_TERM_WINDOW then termDisplay w
      else if cmd = APP_CMD_GAINED_FOCUS then onFocus True w
      else if cmd = APP_CMD_LOST_FOCUS then onFocus False w
      else w)"
  by (cases cmd) (simp_all add: onAppCmd_def onTermWindow_def)

lemma onAppCmd_trace: "prefix (trace w) (trace (final (onAppCmd e cmd w)))"
  by (simp add: final_onAppCmd onInitWindow_trace termDisplay_trace onFocus_trace)

lemma host_step_trace: "prefix (trace w) (trace (final (host_step e a w)))"
  by (cases a) (simp_all add: onAppCmd_trace)

lemma process_trace: "prefix (trace w) (trace (final (process e acts w)))"
proof (induction acts arbitrary: w)
  case Nil
  show ?case by simp
next
  case (Cons a acts)
  show ?case
  proof (cases "host_step e a w")
    case (Inl x)
    then show ?thesis
      using host_step_trace [of w e a] by (cases x) simp
  next
    case (Inr w')
    then show ?thesis
      using host_step_trace [of w e a] Cons.IH [of w']
      by (auto intro: prefix_order.trans)
  qed
qed

lemma dispatch_trace: "prefix (trace w) (trace (final (dispatch r w)))"
proof (cases "pr_source r")
  case None
  then show ?thesis
    by (simp add: dispatch_def processSensorEvents_trace)
next
  case (Some acts)
  show ?thesis
  proof (cases "process (pr_egl r) acts w")
    case (Inl x)
    then show ?thesis
      using process_trace [of w "pr_egl r" acts] Some by (cases x) (simp add: dispatch_def)
  next
    case (Inr w')
    then show ?thesis
      using process_trace [of w "pr_egl r" acts] Some processSensorEvents_trace [of w']
      by (auto simp: dispatch_def intro: prefix_order.trans)
  qed
qed

lemma main_loop_trace: "prefix (trace w) (trace (world_of (main_loop w script)))"
proof (induction script arbitrary: w)
  case Nil
  show ?case by simp
next
  case (Cons r rs)
  have p: "prefix (trace w) (trace (pollAll r w))"
    by (simp add: trace_pollAll)
  show ?case
  proof (cases "0 \<le> pr_ident r")
    case False
    then show ?thesis
      using p animate_trace [of "pollAll r w"] Cons.IH [of "animate (pollAll r w)"]
      by (auto intro: prefix_order.trans)
  next
    case True
    show ?thesis
    proof (cases "dispatch r (pollAll r w)")
      case (Inl x)
      then show ?thesis
        using True p dispatch_trace [of "pollAll r w" r]
        by (cases x) (auto intro: prefix_order.trans)
    next
      case (Inr w2)
      then show ?thesis
        using True p dispatch_trace [of "pollAll r w" r] Cons.IH [of w2] termDisplay_trace [of w2]
        by (auto intro: prefix_order.trans)
    qed
  qed
qed

lemma main_loop_append:
  "main_loop w (xs @ ys) =
     (case main_loop w xs of Waiting w' \<Rightarrow> main_loop w' ys | Returned w' \<Rightarrow> Returned w'
      | Aborted er w' \<Rightarrow> Aborted er w')"
  by (induction xs arbitrary: w) (auto simp: Let_def split: sum.splits)

lemma restored_eq:
  "restored =
     \<lparr>ctx = \<lparr>app = example_app\<lparr>savedState :=
                     Some \<lparr>angle = 0x3EBD70A4, saved_x = 120, saved_y = 340\<rparr>\<rparr>,
              sensorManager = 11, accelerometerSensor = 13, sensorEventQueue = 14,
              animating = 0, display = 0, surface = 0, glcontext = 0, width = 0, height = 0,
              state = \<lparr>angle = 0x3EBD70A4, saved_x = 120, saved_y = 340\<rparr>\<rparr>,
      trace = [], sensorEvents = []\<rparr>"
  by (simp add: restored_def init_def acquireASensorManagerInstance_def example_platform_def
      ctx_onSaveState scenario_eq zero_Context_def Let_def)

lemma init_restored:
  "init example_platform
     (example_app\<lparr>savedState := savedState (app (ctx (onSaveState scenario)))\<rparr>) = Inr restored"
  unfolding restored_def
  by (simp add: init_def acquireASensorManagerInstance_def example_platform_def Let_def)

lemma initDisplay_restored: "return_code (initDisplay example_egl restored) = Some 0"
  by (simp add: return_code_def restored_eq initDisplay_def example_egl_def example_app_def
      Let_def)

subsection \<open>The handles along a run\<close>

text \<open>
  Every operation but the acquisition keeps the handles all valid or all invalid, and so
  does the acquisition on a backend that acquires valid handles only; with such backends
  this holds along every run of the loop.
\<close>

lemma onInitWindow_rt:
  "rt_all_or_nothing (ctx w) \<Longrightarrow> acquires_valid_only e \<Longrightarrow>
   rt_all_or_nothing (ctx (final (onInitWindow e w)))"
  by (simp add: ctx_onInitWindow initDisplay_rt)

lemma onAppCmd_rt:
  assumes "rt_all_or_nothing (ctx w)" and "acquires_valid_only e"
  shows "rt_all_or_nothing (ctx (final (onAppCmd e cmd w)))"
proof -
  have "rt_all_or_nothing (ctx (termDisplay w))"
    using rt_termDisplay [of w] by (simp add: rt_all_or_nothing_def)
  moreover have "rt_all_or_nothing (ctx (onSaveState w))"
    using assms(1) by (simp add: ctx_onSaveState rt_all_or_nothing_def rt_valid_def rt_invalid_def)
  moreover have "rt_all_or_nothing (ctx (onFocus g w))" for g
    using assms(1) by (simp add: ctx_onFocus rt_all_or_nothing_def rt_valid_def rt_invalid_def)
  ultimately show ?thesis
    using assms by (simp add: final_onAppCmd onInitWindow_rt)
qed

lemma host_step_rt:
  assumes "rt_all_or_nothing (ctx w)" and "acquires_valid_only e"
  shows "rt_all_or_nothing (ctx (final (host_step e a w)))"
proof (cases a)
  case (OnAppCmd cmd)
  then show ?thesis using assms by (simp add: onAppCmd_rt)
next
  case (OnInputEvent ev)
  then show ?thesis
    using assms(1)
    by (simp add: ctx_onInputEvent rt_all_or_nothing_def rt_valid_def rt_invalid_def)
qed (use assms(1) in \<open>simp_all add: rt_all_or_nothing_def rt_valid_def rt_invalid_def\<close>)

lemma process_rt:
  "rt_all_or_nothing (ctx w) \<Longrightarrow> acquires_valid_only e \<Longrightarrow>
   rt_all_or_nothing (ctx (final (process e acts w)))"
proof (induction acts arbitrary: w)
  case Nil
  then show ?case by simp
next
  case (Cons a acts)
  note step = host_step_rt [OF Cons.prems, of a]
  show ?case
  proof (cases "host_step e a w")
    case (Inl x)
    then show ?thesis using step by (cases x) simp
  next
    case (Inr w')
    then show ?thesis using step Cons.IH [of w'] Cons.prems(2) by simp
  qed
qed

lemma dispatch_rt:
  assumes "rt_all_or_nothing (ctx w)" and "acquires_valid_only (pr_egl r)"
  shows "rt_all_or_nothing (ctx (final (dispatch r w)))"
proof (cases "pr_source r")
  case None
  then show ?thesis using assms(1) by (simp add: dispatch_def)
next
  case (Some acts)
  note p = process_rt [OF assms, of acts]
  show ?thesis
  proof (cases "process (pr_egl r) acts w")
    case (Inl x)
    then show ?thesis using p Some by (cases x) (simp add: dispatch_def)
  next
    case (Inr w')
    then show ?thesis using p Some by (simp add: dispatch_def)
  qed
qed

lemma main_loop_rt:
  "rt_all_or_nothing (ctx w) \<Longrightarrow> list_all (\<lambda>r. acquires_valid_only (pr_egl r)) script \<Longrightarrow>
   rt_all_or_nothing (ctx (world_of (main_loop w script)))"
proof (induction script arbitrary: w)
  case Nil
  then show ?case by simp
next
  case (Cons r rs)
  have ok: "acquires_valid_only (pr_egl r)" and rest: "list_all (\<lambda>r. acquires_valid_only (pr_egl r)) rs"
    using Cons.prems(2) by simp_all
  have inv1: "rt_all_or_nothing (ctx (pollAll r w))"
    using Cons.prems(1) by simp
  show ?case
  proof (cases "0 \<le> pr_ident r")
    case False
    have "rt_all_or_nothing (ctx (animate (pollAll r w)))"
      using Cons.prems(1)
      by (simp add: ctx_animate rt_all_or_nothing_def rt_valid_def rt_invalid_def)
    then show ?thesis
      using False Cons.IH [OF _ rest] by simp
  next
    case True
    note d = dispatch_rt [OF inv1 ok]
    show ?thesis
    proof (cases "dispatch r (pollAll r w)")
      case (Inl x)
      then show ?thesis using True d by (cases x) simp
    next
      case (Inr w2)
      have "rt_all_or_nothing (ctx (termDisplay w2))"
        using rt_termDisplay [of w2] by (simp add: rt_all_or_nothing_def)
      then show ?thesis
        using True Inr d Cons.IH [OF _ rest, of w2] by simp
    qed
  qed
qed

subsection \<open>One pass of the loop\<close>

lemma main_loop_Cons_trace:
  "prefix (trace (pollAll r w)) (trace (world_of (main_loop w (r # rs))))"
proof (cases "0 \<le> pr_ident r")
  case False
  then show ?thesis
    using animate_trace [of "pollAll r w"] main_loop_trace [of "animate (pollAll r w)" rs]
    by (auto intro: prefix_order.trans)
next
  case True
  show ?thesis
  proof (cases "dispatch r (pollAll r w)")
    case (Inl x)
    then show ?thesis
      using True dispatch_trace [of "pollAll r w" r] by (cases x) simp
  next
    case (Inr w2)
    then show ?thesis
      using True dispatch_trace [of "pollAll r w" r] main_loop_trace [of w2 rs]
        termDisplay_trace [of w2]
      by (auto intro: prefix_order.trans)
  qed
qed

lemma main_loop_input_started:
  "main_loop started [input example_motion] = Waiting (touched\<lparr>trace := [PollAll (- 1)]\<rparr>)"
  by (simp add: input_def pollAll_def poll_timeout_def isAnimating_def dispatch_def
      LOOPER_ID_USER_def touched_def onInputEvent_def example_motion_def started_eq
      example_app_def emit_def)

subsection \<open>The animating flag along a run\<close>

lemma animating_onAppCmd:
  "animating (ctx (final (onAppCmd e cmd w))) =
     (if cmd = APP_CMD_LOST_FOCUS \<or> cmd = APP_CMD_TERM_WINDOW then 0 else animating (ctx w))"
  by (simp add: final_onAppCmd ctx_onSaveState ctx_onInitWindow initDisplay_animating
      ctx_termDisplay ctx_onFocus)

lemma animating_host_step:
  "animating (ctx w) = 0 \<Longrightarrow> \<not> is_motion a \<Longrightarrow> animating (ctx (final (host_step e a w))) = 0"
  by (cases a) (simp_all add: animating_onAppCmd ctx_onInputEvent)

lemma animating_process:
  "animating (ctx w) = 0 \<Longrightarrow> list_all (\<lambda>a. \<not> is_motion a) acts \<Longrightarrow>
   animating (ctx (final (process e acts w))) = 0"
proof (induction acts arbitrary: w)
  case Nil
  then show ?case by simp
next
  case (Cons a acts)
  have step: "animating (ctx (final (host_step e a w))) = 0"
    using Cons.prems by (simp add: animating_host_step)
  show ?case
  proof (cases "host_step e a w")
    case (Inl x)
    then show ?thesis using step by (cases x) simp
  next
    case (Inr w')
    then show ?thesis using step Cons.IH [of w'] Cons.prems(2) by simp
  qed
qed

lemma animating_dispatch:
  assumes "animating (ctx w) = 0"
    and "case pr_source r of None \<Rightarrow> True | Some acts \<Rightarrow> list_all (\<lambda>a. \<not> is_motion a) acts"
  shows "animating (ctx (final (dispatch r w))) = 0"
proof (cases "pr_source r")
  case None
  then show ?thesis using assms(1) by (simp add: dispatch_def)
next
  case (Some acts)
  then have p: "animating (ctx (final (process (pr_egl r) acts w))) = 0"
    using assms by (simp add: animating_process)
  show ?thesis
  proof (cases "process (pr_egl r) acts w")
    case (Inl x)
    then show ?thesis using p Some by (cases x) (simp add: dispatch_def)
  next
    case (Inr w')
    then show ?thesis using p Some by (simp add: dispatch_def)
  qed
qed

lemma animating_main_loop:
  "animating (ctx w) = 0 \<Longrightarrow> motion_free script \<Longrightarrow>
   animating (ctx (world_of (main_loop w script))) = 0"
proof (induction script arbitrary: w)
  case Nil
  then show ?case by simp
next
  case (Cons r rs)
  have here: "case pr_source r of None \<Rightarrow> True | Some acts \<Rightarrow> list_all (\<lambda>a. \<not> is_motion a) acts"
    and rest: "motion_free rs"
    using Cons.prems(2) by (simp_all add: motion_free_def)
  have p: "animating (ctx (pollAll r w)) = 0"
    using Cons.prems(1) by simp
  show ?case
  proof (cases "0 \<le> pr_ident r")
    case False
    have "animating (ctx (animate (pollAll r w))) = 0"
      using p by (simp add: ctx_animate)
    then show ?thesis
      using False Cons.IH [OF _ rest] by simp
  next
    case True
    note d = animating_dispatch [OF p here]
    show ?thesis
    proof (cases "dispatch r (pollAll r w)")
      case (Inl x)
      then show ?thesis using True d by (cases x) simp
    next
      case (Inr w2)
      then show ?thesis
        using True d Cons.IH [OF _ rest, of w2] by (simp add: ctx_termDisplay)
    qed
  qed
qed

lemma main_loop_Returned:
  "main_loop w script = Returned w' \<Longrightarrow> animating (ctx w') = 0 \<and> rt_invalid (ctx w')"
proof (induction script arbitrary: w)
  case Nil
  then show ?case by simp
next
  case (Cons r rs)
  show ?case
  proof (cases "0 \<le> pr_ident r")
    case False
    then show ?thesis using Cons by simp
  next
    case True
    show ?thesis
    proof (cases "dispatch r (pollAll r w)")
      case (Inl x)
      then show ?thesis using True Cons.prems by (cases x) simp
    next
      case (Inr w2)
      show ?thesis
      proof (cases "destroyRequested (app (ctx w2)) \<noteq> 0")
        case True
        with \<open>0 \<le> pr_ident r\<close> Inr Cons.prems have "w' = termDisplay w2" by simp
        then show ?thesis by (simp add: ctx_termDisplay rt_invalid_def)
      next
        case False
        with \<open>0 \<le> pr_ident r\<close> Inr Cons.prems have "main_loop w2 rs = Returned w'" by simp
        then show ?thesis by (rule Cons.IH)
      qed
    qed
  qed
qed

subsection \<open>Shutdown\<close>

lemma frames_Nil [simp]: "frames [] = 0"
  by (simp add: frames_def)

lemma frames_Cons [simp]: "frames (x # xs) = (if is_frame x then 1 else 0) + frames xs"
  by (simp add: frames_def)

lemma frames_append [simp]: "frames (xs @ ys) = frames xs + frames ys"
  by (simp add: frames_def)

lemma frames_release_effects [simp]: "frames (release_effects c) = 0"
  by (simp add: frames_def release_effects_def)

lemma frames_termDisplay: "frames (trace (termDisplay w)) = frames (trace w)"
  by (simp add: trace_termDisplay)

lemma dispatch_destroy_request:
  "dispatch (destroy_request e) w =
     Inr (w\<lparr>ctx := (ctx w)\<lparr>app := (app (ctx w))\<lparr>destroyRequested := 1\<rparr>\<rparr>\<rparr>)"
  by (simp add: dispatch_def destroy_request_def onAppCmd_def LOOPER_ID_USER_def)

lemma main_loop_destroy_request:
  "main_loop w (destroy_request e # xs) =
     Returned (termDisplay ((pollAll (destroy_request e) w)
       \<lparr>ctx := (ctx w)\<lparr>app := (app (ctx w))\<lparr>destroyRequested := 1\<rparr>\<rparr>\<rparr>))"
proof -
  have "0 \<le> pr_ident (destroy_request e)"
    by (simp add: destroy_request_def)
  then show ?thesis
    by (simp add: dispatch_destroy_request)
qed

lemma main_loop_destroy_scenario:
  "main_loop scenario (destroy_request example_egl # [timeout, timeout]) =
     Returned
       \<lparr>ctx = \<lparr>app = example_app\<lparr>destroyRequested := 1\<rparr>, sensorManager = 11,
                accelerometerSensor = 13, sensorEventQueue = 14, animating = 0, display = 0,
                surface = 0, glcontext = 0, width = 1080, height = 1920,
                state = \<lparr>angle = 0x3EBD70A4, saved_x = 120, saved_y = 340\<rparr>\<rparr>,
        trace = trace scenario @ [PollAll 0, EglMakeCurrent 3 0 0 0, EglDestroyContext 3 41,
                                  EglDestroySurface 3 31, EglTerminate 3],
        sensorEvents = []\<rparr>"
  unfolding main_loop_destroy_request
  by (simp add: pollAll_def poll_timeout_def isAnimating_def scenario_eq termDisplay_def
      emit_def Let_def destroy_request_def)

subsection \<open>Float facts\<close>

lemma f32_round_mag_le: "f32_round_mag m \<le> 255 * 2 ^ 23"
  by (simp add: f32_round_mag_def Let_def)

lemma unat_of_round: "unat (of_nat (f32_round_mag m) :: 32 word) = f32_round_mag m"
proof -
  have "f32_round_mag m < 2 ^ 32"
    using f32_round_mag_le [of m] by simp
  then show ?thesis
    by (simp add: unat_of_nat)
qed

lemma f32_rounded_sane:
  "\<not> f32_is_nan (of_nat (f32_round_mag m)) \<and> \<not> f32_neg (of_nat (f32_round_mag m)) \<and>
   0 \<le> f32_val (of_nat (f32_round_mag m))"
proof -
  let ?b = "f32_round_mag m"
  have le: "?b \<le> 255 * 2 ^ 23"
    by (rule f32_round_mag_le)
  have nn: "\<not> f32_neg (of_nat ?b)"
    using le by (simp add: f32_neg_def unat_of_round)
  have "?b mod 2 ^ 23 = 0" if "(?b div 2 ^ 23) mod 256 = 255"
  proof -
    have le': "?b \<le> 2139095040"
      using le by simp
    then have "?b div 8388608 \<le> 255"
      by simp
    with that have "?b div 8388608 = 255"
      by simp
    with le' have "?b mod 8388608 = 0"
      using div_mult_mod_eq [of ?b 8388608] by linarith
    then show ?thesis
      by simp
  qed
  then have "\<not> f32_is_nan (of_nat ?b)"
    by (auto simp: f32_is_nan_def f32_exp_def f32_man_def unat_of_round)
  with nn show ?thesis
    by (simp add: f32_val_def)
qed

lemma f32_in_unit_zero: "f32_in_unit f32_zero"
  by (simp add: f32_in_unit_def f32_le_def f32_is_nan_def f32_exp_def f32_man_def f32_val_def
      f32_neg_def f32_mag_def f32_zero_def f32_one_def)

lemma f32_hundredth_facts:
  "\<not> f32_is_nan f32_hundredth" "f32_exp f32_hundredth = 120" "0 < f32_val f32_hundredth"
  by (simp_all add: f32_is_nan_def f32_exp_def f32_man_def f32_val_def f32_neg_def f32_mag_def
      f32_hundredth_def)

lemma f32_one_facts:
  "\<not> f32_is_nan f32_one" "f32_val f32_one = 2 ^ 149"
  by (simp_all add: f32_is_nan_def f32_exp_def f32_man_def f32_val_def f32_neg_def f32_mag_def
      f32_one_def)

lemma f32_zero_facts:
  "\<not> f32_is_nan f32_zero" "f32_val f32_zero = 0"
  by (simp_all add: f32_is_nan_def f32_exp_def f32_man_def f32_val_def f32_neg_def f32_mag_def
      f32_zero_def)

lemma f32_in_unit_iff:
  "f32_in_unit a \<longleftrightarrow> \<not> f32_is_nan a \<and> 0 \<le> f32_val a \<and> f32_val a \<le> 2 ^ 149"
  by (auto simp: f32_in_unit_def f32_le_def f32_one_facts f32_zero_facts)

lemma f32_mag_exp_255: "f32_exp a = 255 \<Longrightarrow> 2 ^ 277 \<le> f32_mag a"
proof -
  assume e: "f32_exp a = 255"
  have "(2::nat) ^ 277 = 2 ^ 23 * 2 ^ 254"
    by (simp add: power_add [symmetric])
  also have "\<dots> \<le> (2 ^ 23 + f32_man a) * 2 ^ 254"
    by (rule mult_le_mono1) simp
  finally show ?thesis
    using e by (simp add: f32_mag_def)
qed

lemma f32_in_unit_finite: "f32_in_unit a \<Longrightarrow> f32_exp a \<noteq> 255"
proof
  assume u: "f32_in_unit a" and e: "f32_exp a = 255"
  have big: "(2::int) ^ 277 \<le> int (f32_mag a)"
    using f32_mag_exp_255 [OF e] by (metis of_nat_le_iff of_nat_numeral of_nat_power)
  have "(2::int) ^ 149 < 2 ^ 277"
    by simp
  with big u show False
    by (auto simp: f32_in_unit_iff f32_val_def split: if_splits)
qed

lemma f32_add_in_unit:
  assumes "f32_in_unit a"
  shows "\<not> f32_is_nan (f32_add a f32_hundredth)" and "0 \<le> f32_val (f32_add a f32_hundredth)"
proof -
  have pos: "0 < f32_val a + f32_val f32_hundredth"
    using assms f32_hundredth_facts(3) by (simp add: f32_in_unit_iff)
  have "f32_add a f32_hundredth =
          of_nat (f32_round_mag (nat (f32_val a + f32_val f32_hundredth)))"
    using assms pos f32_in_unit_finite [OF assms]
    by (simp add: f32_add_def f32_hundredth_facts f32_in_unit_iff Let_def)
  then show "\<not> f32_is_nan (f32_add a f32_hundredth)"
    and "0 \<le> f32_val (f32_add a f32_hundredth)"
    using f32_rounded_sane by simp_all
qed

lemma f32_step_in_unit:
  assumes "f32_in_unit a"
  shows "f32_in_unit (if f32_gt (f32_add a f32_hundredth) f32_one then f32_zero
                      else f32_add a f32_hundredth)"
proof (cases "f32_gt (f32_add a f32_hundredth) f32_one")
  case True
  then show ?thesis by (simp add: f32_in_unit_zero)
next
  case False
  then have "f32_val (f32_add a f32_hundredth) \<le> 2 ^ 149"
    using f32_add_in_unit(1) [OF assms] by (simp add: f32_gt_def f32_one_facts)
  then show ?thesis
    using False f32_add_in_unit [OF assms] by (simp add: f32_in_unit_iff)
qed

lemma f32_add_scenario: "f32_add 0x3EBD70A4 f32_hundredth = 0x3EC28F5C"
  by (simp add: f32_add_def f32_is_nan_def f32_exp_def f32_man_def f32_val_def f32_neg_def
      f32_mag_def f32_hundredth_def f32_round_mag_def Let_def compute_floorlog)

lemma f32_add_zero: "f32_add f32_zero f32_hundredth = f32_hundredth"
  by (simp add: f32_add_def f32_is_nan_def f32_exp_def f32_man_def f32_val_def f32_neg_def
      f32_mag_def f32_hundredth_def f32_zero_def f32_round_mag_def Let_def compute_floorlog)

lemma f32_hundredth_not_gt_one: "\<not> f32_gt f32_hundredth f32_one"
  by (simp add: f32_gt_def f32_is_nan_def f32_exp_def f32_man_def f32_val_def f32_neg_def
      f32_mag_def f32_hundredth_def f32_one_def)

lemma f32_scenario_facts:
  "\<not> f32_gt 0x3EC28F5C f32_one" "f32_in_unit 0x3EBD70A4" "f32_in_unit 0x3EC28F5C"
  by (simp_all add: f32_gt_def f32_in_unit_def f32_le_def f32_is_nan_def f32_exp_def f32_man_def
      f32_val_def f32_neg_def f32_mag_def f32_one_def f32_zero_def)

lemma trace_drawFrame:
  "trace (drawFrame w) = trace w @ (if display (ctx w) \<noteq> 0 then frame_effects (ctx w) else [])"
  by (simp add: drawFrame_def frame_effects_def Let_def)

lemma frames_frame_effects [simp]: "frames (frame_effects c) = 1"
  by (simp add: frame_effects_def)

lemma trace_animate:
  "trace (animate w) =
     trace w @ (if animating (ctx w) \<noteq> 0 \<and> display (ctx w) \<noteq> 0
                then frame_effects (ctx (animate w)) else [])"
  by (simp add: animate_def trace_drawFrame Let_def)

subsection \<open>Rounding is to a nearest float\<close>

lemma unat_of_nat_32: "n < 2 ^ 32 \<Longrightarrow> unat (of_nat n :: 32 word) = n"
  by (simp add: unat_of_nat)

lemma f32_mag_bits:
  assumes u: "unat w = sh * 8388608 + q"
    and "8388608 \<le> q" and "q \<le> 16777216" and "sh \<le> 252"
  shows "f32_mag w = q * 2 ^ sh"
proof (cases "q = 16777216")
  case True
  then have B: "unat w = (sh + 2) * 8388608"
    using u by simp
  have e: "f32_exp w = sh + 2"
    unfolding f32_exp_def B using assms(4) by simp
  have m: "f32_man w = 0"
    unfolding f32_man_def B by simp
  show ?thesis
    using True by (simp add: f32_mag_def e m)
next
  case False
  define m where "m = q - 8388608"
  have q: "q = 8388608 + m" and mlt: "m < 8388608"
    using assms(2,3) False by (simp_all add: m_def)
  have B: "unat w = (sh + 1) * 8388608 + m"
    using q u by simp
  have e: "f32_exp w = sh + 1"
    unfolding f32_exp_def B using assms(4) mlt by simp
  have "f32_man w = ((sh + 1) * 8388608 + m) mod 8388608"
    unfolding f32_man_def B by simp
  also have "\<dots> = m mod 8388608"
    by (rule mod_mult_self3)
  finally have mm: "f32_man w = m"
    using mlt by simp
  show ?thesis
    using q by (simp add: f32_mag_def e mm)
qed

lemma f32_round_mag_nearest:
  assumes big: "2 ^ 24 \<le> n" and fl: "floorlog 2 n \<le> 276"
  shows "f32_round_mag n < 2 ^ 31"
    and "2 * f32_mag (of_nat (f32_round_mag n)) \<le> 2 * n + 2 ^ (floorlog 2 n - 24)"
    and "2 * n \<le> 2 * f32_mag (of_nat (f32_round_mag n)) + 2 ^ (floorlog 2 n - 24)"
proof -
  define k where "k = floorlog 2 n"
  define sh where "sh = k - 24"
  define q where "q = n div 2 ^ sh"
  define r where "r = n mod 2 ^ sh"
  define q' where "q' = (if 2 ^ sh < 2 * r \<or> (2 * r = 2 ^ sh \<and> odd q) then q + 1 else q)"
  have npos: "0 < n"
    using big by (simp add: less_le_trans [of 0 "2 ^ 24"])
  have bounds: "2 ^ (k - 1) \<le> n" "n < 2 ^ k"
    using floorlog_bounds [of n 2] npos by (simp_all add: k_def)
  have k25: "25 \<le> k"
    unfolding k_def using floorlog_ge_SucI [of 2 24 n] big by simp
  have ksh: "k = sh + 24" "k - 1 = sh + 23" and sh1: "1 \<le> sh" and sh252: "sh \<le> 252"
    using k25 fl by (simp_all add: sh_def k_def)
  have n_eq: "n = q * 2 ^ sh + r" and rlt: "r < 2 ^ sh"
    by (simp_all add: q_def r_def div_mult_mod_eq)
  have qlo: "2 ^ 23 \<le> q"
  proof -
    have "2 ^ 23 * 2 ^ sh \<le> n"
      using bounds(1) by (simp add: ksh power_add mult.commute)
    then show ?thesis
      unfolding q_def by (simp add: less_eq_div_iff_mult_less_eq)
  qed
  have qhi: "q < 2 ^ 24"
  proof -
    have "n < 2 ^ 24 * 2 ^ sh"
      using bounds(2) by (simp add: ksh power_add mult.commute)
    then show ?thesis
      unfolding q_def by (simp add: less_mult_imp_div_less)
  qed
  have q'range: "8388608 \<le> q'" "q' \<le> 16777216"
    using qlo qhi by (simp_all add: q'_def)
  have rm: "f32_round_mag n = min (sh * 2 ^ 23 + q') (255 * 2 ^ 23)"
    using big by (simp add: f32_round_mag_def Let_def sh_def k_def q_def r_def q'_def)
  have "sh * 2 ^ 23 + q' \<le> 252 * 2 ^ 23 + 2 ^ 24"
    using sh252 q'range(2) by (intro add_mono mult_le_mono1) simp_all
  then have Ble: "sh * 2 ^ 23 + q' \<le> 2130706432"
    by simp
  then have rm': "f32_round_mag n = sh * 8388608 + q'"
    using rm by simp
  show "f32_round_mag n < 2 ^ 31"
    using Ble rm' by simp
  have "unat (of_nat (f32_round_mag n) :: 32 word) = sh * 8388608 + q'"
    unfolding rm' using Ble by (intro unat_of_nat_32) simp
  then have mag: "f32_mag (of_nat (f32_round_mag n)) = q' * 2 ^ sh"
    using q'range sh252 by (rule f32_mag_bits)
  have up: "2 * (q' * 2 ^ sh) \<le> 2 * n + 2 ^ sh"
  proof (cases "q' = q")
    case True
    then show ?thesis by (simp add: n_eq)
  next
    case False
    then have "q' = q + 1" and "2 ^ sh \<le> 2 * r"
      by (auto simp: q'_def split: if_splits)
    then show ?thesis
      by (simp add: n_eq algebra_simps)
  qed
  have down: "2 * n \<le> 2 * (q' * 2 ^ sh) + 2 ^ sh"
  proof (cases "q' = q")
    case True
    then have "2 * r \<le> 2 ^ sh"
      by (auto simp: q'_def split: if_splits)
    with True show ?thesis
      by (simp add: n_eq algebra_simps)
  next
    case False
    then have "q' = q + 1"
      by (auto simp: q'_def split: if_splits)
    then show ?thesis
      using rlt by (simp add: n_eq algebra_simps)
  qed
  show "2 * f32_mag (of_nat (f32_round_mag n)) \<le> 2 * n + 2 ^ (floorlog 2 n - 24)"
    using up by (simp add: mag sh_def k_def)
  show "2 * n \<le> 2 * f32_mag (of_nat (f32_round_mag n)) + 2 ^ (floorlog 2 n - 24)"
    using down by (simp add: mag sh_def k_def)
qed

lemma f32_val_hundredth: "f32_val f32_hundredth = 10737418 * 2 ^ 119"
  by (simp add: f32_val_def f32_neg_def f32_mag_def f32_exp_def f32_man_def f32_hundredth_def)

lemma f32_add_hundredth_near:
  assumes "f32_in_unit a"
  shows "f32_val a < f32_val (f32_add a f32_hundredth)"
    and "2 * \<bar>f32_val (f32_add a f32_hundredth) - (f32_val a + f32_val f32_hundredth)\<bar> \<le> 2 ^ 126"
proof -
  have close: "2 * \<bar>x - y\<bar> \<le> M" if "2 * x \<le> 2 * y + E" "2 * y \<le> 2 * x + E" "E \<le> M"
    for x y E M :: int
    using that by (auto simp: abs_if)
  have above: "z < x" if "2 * z + M < 2 * y" "2 * y \<le> 2 * x + E" "E \<le> M"
    for x y z E M :: int
    using that by linarith
  define n where "n = nat (f32_val a + f32_val f32_hundredth)"
  have a0: "0 \<le> f32_val a" and a1: "f32_val a \<le> 2 ^ 149"
    using assms by (simp_all add: f32_in_unit_iff)
  have n_int: "int n = f32_val a + f32_val f32_hundredth"
    using a0 by (simp add: n_def f32_val_hundredth)
  have "(2::int) ^ 24 \<le> 10737418 * 2 ^ 119"
    by simp
  then have "(2::int) ^ 24 \<le> int n"
    using a0 by (simp add: n_int f32_val_hundredth)
  then have "int (2 ^ 24) \<le> int n"
    by simp
  then have big: "2 ^ 24 \<le> n"
    by (simp only: of_nat_le_iff)
  have "(10737418::int) * 2 ^ 119 < 2 ^ 149"
    by simp
  then have "int n < 2 ^ 150"
    using a1 by (simp add: n_int f32_val_hundredth)
  then have "int n < int (2 ^ 150)"
    by simp
  then have "n < 2 ^ 150"
    by (simp only: of_nat_less_iff)
  then have fl: "floorlog 2 n \<le> 150"
    by (simp add: floorlog_leI)
  then have fl': "floorlog 2 n \<le> 276" and sh: "floorlog 2 n - 24 \<le> 126"
    by simp_all
  have pos: "0 < f32_val a + f32_val f32_hundredth"
    using a0 by (simp add: f32_val_hundredth)
  have r: "f32_add a f32_hundredth = of_nat (f32_round_mag n)"
    using assms pos f32_in_unit_finite [OF assms]
    by (simp add: f32_add_def f32_hundredth_facts f32_in_unit_iff Let_def n_def)
  note near = f32_round_mag_nearest [OF big fl']
  have v: "f32_val (f32_add a f32_hundredth) = int (f32_mag (of_nat (f32_round_mag n)))"
    using f32_rounded_sane [of n] by (simp add: r f32_val_def)
  have p: "(2::int) ^ (floorlog 2 n - 24) \<le> 2 ^ 126"
    using sh by (intro power_increasing) simp_all
  have up: "2 * int (f32_mag (of_nat (f32_round_mag n))) \<le> 2 * int n + 2 ^ (floorlog 2 n - 24)"
    using of_nat_mono [OF near(2), where ?'a = int] by simp
  have down: "2 * int n \<le> 2 * int (f32_mag (of_nat (f32_round_mag n))) + 2 ^ (floorlog 2 n - 24)"
    using of_nat_mono [OF near(3), where ?'a = int] by simp
  show "2 * \<bar>f32_val (f32_add a f32_hundredth) - (f32_val a + f32_val f32_hundredth)\<bar> \<le> 2 ^ 126"
    unfolding v n_int [symmetric] by (rule close [OF up down p])
  have "(2::int) ^ 126 < 2 * (10737418 * 2 ^ 119)"
    by simp
  then have "2 * f32_val a + 2 ^ 126 < 2 * int n"
    by (simp add: n_int f32_val_hundredth)
  then show "f32_val a < f32_val (f32_add a f32_hundredth)"
    unfolding v by (rule above [OF _ down p])
qed

lemma f32_add_near_one: "f32_add 0x3F7FFFF5 f32_hundredth = 0x3F8147A9"
  by (simp add: f32_add_def f32_is_nan_def f32_exp_def f32_man_def f32_val_def f32_neg_def
      f32_mag_def f32_hundredth_def f32_round_mag_def Let_def compute_floorlog)

lemma f32_near_one_facts: "f32_gt 0x3F8147A9 f32_one" "f32_in_unit 0x3F7FFFF5"
  by (simp_all add: f32_gt_def f32_in_unit_def f32_le_def f32_is_nan_def f32_exp_def f32_man_def
      f32_val_def f32_neg_def f32_mag_def f32_one_def f32_zero_def)


section \<open>The render target is all or nothing\<close>

text \<open>
  Claim C1 says that after every operation the display, surface and context handles are
  all valid or all invalid.  The code keeps to this after \<^verbatim>\<open>init\<close>, after \<^verbatim>\<open>termDisplay\<close> and
  after an acquisition that fails, and \<^verbatim>\<open>drawFrame\<close> counts on it: it tests the display
  alone before it presents on the surface.  But \<^verbatim>\<open>initDisplay\<close> tests neither the surface
  nor the context it has created.  On a backend that can create neither, the call
  \<^verbatim>\<open>eglMakeCurrent\<close> it makes is the one that releases the current context (the call of
  \<^verbatim>\<open>termDisplay\<close>), which succeeds: the acquisition returns 0 and the engine is left, from
  the all-invalid target, with a valid display and no surface and no context, on which the
  \<^verbatim>\<open>drawFrame\<close> of \<^verbatim>\<open>onInitWindow\<close> then presents.
\<close>

theorem acquire_keeps_partial_target:
  "rt_invalid (ctx started) \<and>
   return_code (initDisplay exhausted_egl started) = Some 0 \<and>
   display (ctx (acquisition (initDisplay exhausted_egl started))) = 3 \<and>
   surface (ctx (acquisition (initDisplay exhausted_egl started))) = 0 \<and>
   glcontext (ctx (acquisition (initDisplay exhausted_egl started))) = 0 \<and>
   \<not> rt_all_or_nothing (ctx (acquisition (initDisplay exhausted_egl started))) \<and>
   \<not> rt_all_or_nothing (ctx (final (onAppCmd exhausted_egl APP_CMD_INIT_WINDOW started))) \<and>
   trace (final (onAppCmd exhausted_egl APP_CMD_INIT_WINDOW started)) =
     [EglInitialize 3, EglCreateWindowSurface 3 22 7, EglCreateContext 3 22,
      EglMakeCurrent 3 0 0 0, LogOpenGLInfo, LogOpenGLInfo, LogOpenGLInfo, LogOpenGLInfo,
      GlHintPerspectiveFastest, GlEnableCullFace, GlShadeModelSmooth, GlDisableDepthTest,
      GlClearColor (0, 1080) 0 (0, 1920), GlClear, EglSwapBuffers 3 0]"
proof -
  have a: "rt_invalid (ctx started)"
    by (simp add: started_eq rt_invalid_def)
  have b: "return_code (initDisplay exhausted_egl started) = Some 0"
    by (simp add: initDisplay_exhausted return_code_def)
  have h: "display (ctx (acquisition (initDisplay exhausted_egl started))) = 3"
    "surface (ctx (acquisition (initDisplay exhausted_egl started))) = 0"
    "glcontext (ctx (acquisition (initDisplay exhausted_egl started))) = 0"
    by (simp_all add: initDisplay_exhausted)
  have c: "\<not> rt_all_or_nothing (ctx (acquisition (initDisplay exhausted_egl started)))"
    by (simp add: h rt_all_or_nothing_def rt_valid_def rt_invalid_def)
  have win: "window (app (ctx started)) \<noteq> 0"
    by (simp add: started_eq example_app_def)
  then have d: "\<not> rt_all_or_nothing (ctx (final (onAppCmd exhausted_egl APP_CMD_INIT_WINDOW started)))"
    using c by (simp add: final_onAppCmd ctx_onInitWindow)
  have "final (onAppCmd exhausted_egl APP_CMD_INIT_WINDOW started) =
          drawFrame (acquisition (initDisplay exhausted_egl started))"
    using win b by (simp add: final_onAppCmd final_onInitWindow)
  then have t: "trace (final (onAppCmd exhausted_egl APP_CMD_INIT_WINDOW started)) =
     [EglInitialize 3, EglCreateWindowSurface 3 22 7, EglCreateContext 3 22,
      EglMakeCurrent 3 0 0 0, LogOpenGLInfo, LogOpenGLInfo, LogOpenGLInfo, LogOpenGLInfo,
      GlHintPerspectiveFastest, GlEnableCullFace, GlShadeModelSmooth, GlDisableDepthTest,
      GlClearColor (0, 1080) 0 (0, 1920), GlClear, EglSwapBuffers 3 0]"
    by (simp add: initDisplay_exhausted drawFrame_def emit_def zero_SavedState_def)
  show ?thesis
    using a b h c d t by simp
qed


section \<open>Release\<close>

text \<open>
  Claim C2.  \<^verbatim>\<open>termDisplay\<close> is idempotent.  After any call the three handles are invalid
  and \<^verbatim>\<open>animating\<close> is false.  On a target that is already released, or was never
  acquired, it makes no backend call and leaves the handles as they are: the only field it
  writes a new value to is \<^verbatim>\<open>animating\<close>.  It returns no error value: it is a total
  function to worlds.
\<close>

theorem termDisplay_idempotent:
  "termDisplay (termDisplay w) = termDisplay w \<and>
   rt_invalid (ctx (termDisplay w)) \<and> animating (ctx (termDisplay w)) = 0 \<and>
   (rt_invalid (ctx w) \<longrightarrow>
      termDisplay w = w\<lparr>ctx := (ctx w)\<lparr>animating := 0\<rparr>\<rparr> \<and>
      trace (termDisplay w) = trace w \<and>
      display (ctx (termDisplay w)) = display (ctx w) \<and>
      surface (ctx (termDisplay w)) = surface (ctx w) \<and>
      glcontext (ctx (termDisplay w)) = glcontext (ctx w))"
proof -
  have idem: "termDisplay (termDisplay w) = termDisplay w"
    by (simp add: termDisplay_released ctx_termDisplay)
  have noop: "termDisplay w = w\<lparr>ctx := (ctx w)\<lparr>animating := 0\<rparr>\<rparr>" if "rt_invalid (ctx w)"
    using that by (simp add: termDisplay_released rt_invalid_def)
  have same: "trace (termDisplay w) = trace w" if "rt_invalid (ctx w)"
    using that by (simp add: trace_termDisplay rt_invalid_def)
  show ?thesis
    using idem noop same by (simp add: rt_termDisplay ctx_termDisplay rt_invalid_def)
qed

theorem termDisplay_idempotent_witness:
  "rt_invalid (ctx started) \<and> termDisplay started = started \<and>
   termDisplay (termDisplay drawing) = termDisplay drawing \<and>
   trace (termDisplay (termDisplay drawing)) =
     trace drawing @ [EglMakeCurrent 3 0 0 0, EglDestroyContext 3 41, EglDestroySurface 3 31,
                      EglTerminate 3]"
proof -
  have inv: "rt_invalid (ctx started)"
    by (simp add: started_eq rt_invalid_def)
  have "termDisplay started = started\<lparr>ctx := (ctx started)\<lparr>animating := 0\<rparr>\<rparr>"
    using termDisplay_idempotent [of started] inv by blast
  then have a: "termDisplay started = started"
    by (simp add: started_eq)
  have b: "termDisplay (termDisplay drawing) = termDisplay drawing"
    using termDisplay_idempotent [of drawing] by blast
  have c: "trace (termDisplay drawing) =
     trace drawing @ [EglMakeCurrent 3 0 0 0, EglDestroyContext 3 41, EglDestroySurface 3 31,
                      EglTerminate 3]"
    by (simp add: trace_termDisplay release_effects_def drawing_eq)
  show ?thesis using inv a b c by simp
qed


section \<open>The poll policy\<close>

text \<open>
  Claim C3.  The call of \<^verbatim>\<open>ALooper_pollAll\<close> is made with timeout 0 when the engine is
  animating and with timeout -1 (wait without limit) when it is not.  This holds for every
  pass of the loop: whenever a run has brought the loop to its next call in a world \<open>w'\<close>,
  the effects of any longer run go on, after those of \<open>w'\<close>, with that call and the timeout
  that \<open>w'\<close> decides.
\<close>

theorem poll_policy:
  "trace (pollAll r w) = trace w @ [PollAll (if isAnimating w then 0 else - 1)] \<and>
   (main_loop w script = Waiting w' \<longrightarrow>
      prefix (trace w' @ [PollAll (if isAnimating w' then 0 else - 1)])
             (trace (world_of (main_loop w (script @ r # rs)))))"
proof -
  have "prefix (trace w' @ [PollAll (if isAnimating w' then 0 else - 1)])
             (trace (world_of (main_loop w (script @ r # rs))))"
    if "main_loop w script = Waiting w'"
  proof -
    have "main_loop w (script @ r # rs) = main_loop w' (r # rs)"
      using that by (simp add: main_loop_append)
    then show ?thesis
      using main_loop_Cons_trace [of r w' rs] by (simp add: trace_pollAll poll_timeout_def)
  qed
  then show ?thesis
    by (simp add: trace_pollAll poll_timeout_def)
qed

theorem poll_policy_witness:
  "\<not> isAnimating started \<and>
   trace (pollAll (input example_motion) started) = [PollAll (- 1)] \<and>
   main_loop started [input example_motion] = Waiting (touched\<lparr>trace := [PollAll (- 1)]\<rparr>) \<and>
   isAnimating (touched\<lparr>trace := [PollAll (- 1)]\<rparr>) \<and>
   prefix [PollAll (- 1), PollAll 0]
          (trace (world_of (main_loop started ([input example_motion] @ [timeout]))))"
proof -
  have a: "\<not> isAnimating started"
    by (simp add: isAnimating_def started_eq)
  have b: "isAnimating (touched\<lparr>trace := [PollAll (- 1)]\<rparr>)"
    by (simp add: isAnimating_def touched_eq)
  have c: "trace started = []"
    by (simp add: started_eq)
  note t = poll_policy [where w = started and script = "[input example_motion]"
      and w' = "touched\<lparr>trace := [PollAll (- 1)]\<rparr>" and r = timeout and rs = "[]"]
  have d: "prefix [PollAll (- 1), PollAll 0]
          (trace (world_of (main_loop started ([input example_motion] @ [timeout]))))"
    using t main_loop_input_started b by simp
  have e: "trace (pollAll (input example_motion) started) = [PollAll (- 1)]"
    using poll_policy [where w = started and r = "input example_motion"] a c by simp
  show ?thesis using a b d e main_loop_input_started by simp
qed


section \<open>The animating flag\<close>

text \<open>
  Claim C4.  \<^verbatim>\<open>animating\<close> is false after \<^verbatim>\<open>init\<close>.  The only operation that sets it is
  \<^verbatim>\<open>onInputEvent\<close> on an event of motion type; every command, the sensor drain, the poll
  and the animation step leave it as it is or clear it.  So along every run of the event
  loop from the initial state it is false as long as no motion event has been routed.
  \<^verbatim>\<open>APP_CMD_LOST_FOCUS\<close> clears it whatever it was, and so does \<^verbatim>\<open>termDisplay\<close>, which is
  what a destroy request ends the loop with: a loop that has returned has left it false.
\<close>

theorem animating_transitions:
  "animating (ctx (final (init p a))) = 0 \<and>
   animating (ctx (snd (onInputEvent ev w))) =
     (if ev_type ev = AINPUT_EVENT_TYPE_MOTION then 1 else animating (ctx w)) \<and>
   animating (ctx (final (onAppCmd e cmd w))) =
     (if cmd = APP_CMD_LOST_FOCUS \<or> cmd = APP_CMD_TERM_WINDOW then 0 else animating (ctx w)) \<and>
   animating (ctx (processSensorEvents w)) = animating (ctx w) \<and>
   animating (ctx (pollAll r w)) = animating (ctx w) \<and>
   animating (ctx (animate w)) = animating (ctx w) \<and>
   animating (ctx (termDisplay w)) = 0 \<and>
   (motion_free script \<longrightarrow> animating (ctx (world_of (android_main p a script))) = 0) \<and>
   (animating (ctx w) = 0 \<and> motion_free script \<longrightarrow>
      animating (ctx (world_of (main_loop w script))) = 0) \<and>
   (main_loop w script = Returned w' \<longrightarrow> animating (ctx w') = 0)"
proof -
  have i: "animating (ctx (final (init p a))) = 0"
    by (simp add: init_def zero_Context_def Let_def split: sum.splits option.splits)
  have m: "animating (ctx (world_of (android_main p a script))) = 0" if "motion_free script"
  proof (cases "init p a")
    case (Inl x)
    then show ?thesis using i by (cases x) (simp add: android_main_def)
  next
    case (Inr w0)
    then show ?thesis
      using i that animating_main_loop [of w0 script] by (simp add: android_main_def)
  qed
  show ?thesis
    using i m animating_main_loop [of w script] main_loop_Returned [of w script w']
    by (simp add: ctx_onInputEvent animating_onAppCmd ctx_animate ctx_termDisplay)
qed

theorem animating_transitions_witness:
  "motion_free [command APP_CMD_INIT_WINDOW, command APP_CMD_GAINED_FOCUS, input example_key, timeout] \<and>
   animating (ctx (world_of (android_main example_platform example_app
     [command APP_CMD_INIT_WINDOW, command APP_CMD_GAINED_FOCUS, input example_key, timeout]))) = 0 \<and>
   animating (ctx started) = 0 \<and>
   animating (ctx (world_of (main_loop started
     [command APP_CMD_INIT_WINDOW, command APP_CMD_GAINED_FOCUS, input example_key, timeout]))) = 0 \<and>
   animating (ctx (snd (onInputEvent example_motion started))) = 1 \<and>
   animating (ctx scenario) = 1 \<and>
   animating (ctx (final (onAppCmd example_egl APP_CMD_LOST_FOCUS scenario))) = 0 \<and>
   (\<exists>w'. main_loop scenario (destroy_request example_egl # [timeout, timeout]) = Returned w' \<and>
         animating (ctx w') = 0)"
proof -
  let ?s = "[command APP_CMD_INIT_WINDOW, command APP_CMD_GAINED_FOCUS, input example_key, timeout]"
  have mf: "motion_free ?s"
    by (simp add: motion_free_def command_def input_def timeout_def example_key_def
        AINPUT_EVENT_TYPE_KEY_def AINPUT_EVENT_TYPE_MOTION_def)
  have z: "animating (ctx started) = 0"
    by (simp add: started_eq)
  have one: "animating (ctx scenario) = 1"
    by (simp add: scenario_eq)
  have a: "animating (ctx (world_of (android_main example_platform example_app ?s))) = 0"
    using animating_transitions [where script = ?s and p = example_platform and a = example_app]
      mf by blast
  have b: "animating (ctx (world_of (main_loop started ?s))) = 0"
    using animating_transitions [where script = ?s and w = started] mf z by blast
  have c: "animating (ctx (snd (onInputEvent example_motion started))) = 1"
    using animating_transitions [where ev = example_motion and w = started]
    by (simp add: example_motion_def)
  have d: "animating (ctx (final (onAppCmd example_egl APP_CMD_LOST_FOCUS scenario))) = 0"
    using animating_transitions [where e = example_egl and cmd = APP_CMD_LOST_FOCUS
        and w = scenario] by simp
  obtain w' where r: "main_loop scenario (destroy_request example_egl # [timeout, timeout]) = Returned w'"
    using main_loop_destroy_scenario by blast
  then have e: "animating (ctx w') = 0"
    using animating_transitions [where w = scenario
        and script = "destroy_request example_egl # [timeout, timeout]" and w' = w'] by blast
  show ?thesis
    using mf z one a b c d r e by blast
qed


section \<open>The animation step\<close>

text \<open>
  Claim C5, as stated, says that while \<^verbatim>\<open>animating\<close> is true every pass presents exactly
  one frame.  \<^verbatim>\<open>drawFrame\<close> returns at once when there is no display, and \<^verbatim>\<open>animating\<close>
  can be true without one: a pointer event that arrives before any window sets it.  In that
  world \<^verbatim>\<open>animate\<close> advances the angle and presents nothing.
\<close>

theorem animate_without_display_counterexample:
  "animating (ctx touched) \<noteq> 0 \<and>
   animate touched = touched\<lparr>ctx := (ctx touched)\<lparr>state := (state (ctx touched))
                                \<lparr>angle := f32_add f32_zero f32_hundredth\<rparr>\<rparr>\<rparr> \<and>
   trace (animate touched) = trace touched \<and>
   frames (trace (animate touched)) \<noteq> frames (trace touched) + 1"
proof -
  have a: "animating (ctx touched) \<noteq> 0" and d: "display (ctx touched) = 0"
    and z: "angle (state (ctx touched)) = f32_zero"
    by (simp_all add: touched_eq f32_zero_def)
  have g: "\<not> f32_gt (f32_add f32_zero f32_hundredth) f32_one"
    by (simp add: f32_add_zero f32_hundredth_not_gt_one)
  have eq: "animate touched = touched\<lparr>ctx := (ctx touched)\<lparr>state := (state (ctx touched))
                                \<lparr>angle := f32_add f32_zero f32_hundredth\<rparr>\<rparr>\<rparr>"
    using a d z g by (simp add: animate_def drawFrame_def Let_def)
  have "trace (animate touched) = trace touched"
    using a d by (simp add: trace_animate)
  then show ?thesis
    using a eq by simp
qed

text \<open>
  Claim C5, amended.  While \<^verbatim>\<open>animating\<close> is true, \<^verbatim>\<open>animate\<close> replaces the angle by the
  binary32 sum of the angle and \<^verbatim>\<open>.01f\<close>, or by 0 when that sum is greater than 1.  For an
  angle in the range 0..1 the new angle is in the range again, the sum is greater than the
  angle, and it is the exact sum of the angle and \<^verbatim>\<open>.01f\<close> up to one rounding, at most
  \<open>2 ^ -24\<close> away (values are counted in units of \<open>2 ^ -149\<close>).  \<^verbatim>\<open>animate\<close> then calls
  \<^verbatim>\<open>drawFrame\<close> once, which presents exactly one frame (of the new angle) when the target
  has a display and none when it has not.  While \<^verbatim>\<open>animating\<close> is false, \<^verbatim>\<open>animate\<close>
  changes nothing and presents nothing.  The loop runs \<^verbatim>\<open>animate\<close> once each time a poll
  reports that no event is left.
\<close>

theorem animate_step:
  "(animating (ctx w) \<noteq> 0 \<longrightarrow>
      angle (state (ctx (animate w))) =
        (if f32_gt (f32_add (angle (state (ctx w))) f32_hundredth) f32_one then f32_zero
         else f32_add (angle (state (ctx w))) f32_hundredth) \<and>
      (f32_in_unit (angle (state (ctx w))) \<longrightarrow>
         f32_in_unit (angle (state (ctx (animate w)))) \<and>
         f32_val (angle (state (ctx w))) <
           f32_val (f32_add (angle (state (ctx w))) f32_hundredth) \<and>
         2 * \<bar>f32_val (f32_add (angle (state (ctx w))) f32_hundredth) -
               (f32_val (angle (state (ctx w))) + f32_val f32_hundredth)\<bar> \<le> 2 ^ 126) \<and>
      trace (animate w) =
        trace w @ (if display (ctx w) \<noteq> 0 then frame_effects (ctx (animate w)) else []) \<and>
      frames (trace (animate w)) = frames (trace w) + (if display (ctx w) \<noteq> 0 then 1 else 0)) \<and>
   (animating (ctx w) = 0 \<longrightarrow> animate w = w) \<and>
   (pr_ident r < 0 \<longrightarrow> main_loop w (r # rs) = main_loop (animate (pollAll r w)) rs)"
proof -
  have unit: "f32_in_unit (angle (state (ctx (animate w))))"
    if "animating (ctx w) \<noteq> 0" and "f32_in_unit (angle (state (ctx w)))"
    using that f32_step_in_unit [of "angle (state (ctx w))"] by (simp add: ctx_animate)
  have still: "animate w = w" if "animating (ctx w) = 0"
    using that by (simp add: animate_def)
  have loop: "main_loop w (r # rs) = main_loop (animate (pollAll r w)) rs" if "pr_ident r < 0"
    using that by simp
  show ?thesis
    using unit still loop f32_add_hundredth_near [of "angle (state (ctx w))"]
    by (simp add: ctx_animate trace_animate)
qed

theorem animate_step_witness:
  "animating (ctx scenario) \<noteq> 0 \<and> display (ctx scenario) \<noteq> 0 \<and>
   angle (state (ctx scenario)) = 0x3EBD70A4 \<and> f32_in_unit 0x3EBD70A4 \<and>
   angle (state (ctx (animate scenario))) = 0x3EC28F5C \<and> f32_in_unit 0x3EC28F5C \<and>
   f32_val 0x3EBD70A4 < f32_val 0x3EC28F5C \<and>
   trace (animate scenario) =
     trace scenario @ [GlClearColor (120, 1080) 0x3EC28F5C (340, 1920), GlClear,
                       EglSwapBuffers 3 31] \<and>
   frames (trace (animate scenario)) = frames (trace scenario) + 1 \<and>
   angle (state (ctx (animate
     (scenario\<lparr>ctx := (ctx scenario)\<lparr>state := (state (ctx scenario))\<lparr>angle := 0x3F7FFFF5\<rparr>\<rparr>\<rparr>)))) =
     f32_zero \<and>
   animating (ctx started) = 0 \<and> animate started = started \<and>
   pr_ident timeout < 0 \<and>
   main_loop scenario [timeout] = Waiting (animate (pollAll timeout scenario))"
proof -
  let ?near = "scenario\<lparr>ctx := (ctx scenario)\<lparr>state := (state (ctx scenario))\<lparr>angle := 0x3F7FFFF5\<rparr>\<rparr>\<rparr>"
  have a: "animating (ctx scenario) \<noteq> 0" and d: "display (ctx scenario) \<noteq> 0"
    and g: "angle (state (ctx scenario)) = 0x3EBD70A4"
    by (simp_all add: scenario_eq)
  note t = animate_step [where w = scenario and r = timeout and rs = "[]"]
  have ang: "angle (state (ctx (animate scenario))) = 0x3EC28F5C"
    using t a by (simp add: g f32_add_scenario f32_scenario_facts)
  have "f32_in_unit (angle (state (ctx scenario))) \<longrightarrow>
        f32_in_unit (angle (state (ctx (animate scenario)))) \<and>
        f32_val (angle (state (ctx scenario))) <
          f32_val (f32_add (angle (state (ctx scenario))) f32_hundredth)"
    using t a by blast
  then have u: "f32_in_unit (angle (state (ctx (animate scenario))))"
    and adv: "f32_val 0x3EBD70A4 < f32_val (f32_add 0x3EBD70A4 f32_hundredth)"
    unfolding g using f32_scenario_facts(2) by blast+
  have fe: "frame_effects (ctx (animate scenario)) =
      [GlClearColor (120, 1080) 0x3EC28F5C (340, 1920), GlClear, EglSwapBuffers 3 31]"
    by (simp add: frame_effects_def ctx_animate a g f32_add_scenario f32_scenario_facts)
       (simp add: scenario_eq)
  have tr: "trace (animate scenario) = trace scenario @ frame_effects (ctx (animate scenario))"
    using t a d by simp
  have fr: "frames (trace (animate scenario)) = frames (trace scenario) + 1"
    using t a d by simp
  have na: "animating (ctx ?near) \<noteq> 0" and ng: "angle (state (ctx ?near)) = 0x3F7FFFF5"
    using a by simp_all
  have wrap: "angle (state (ctx (animate ?near))) = f32_zero"
    using animate_step [where w = ?near] na
    by (simp add: f32_add_near_one f32_near_one_facts)
  have z: "animating (ctx started) = 0"
    by (simp add: started_eq)
  have st: "animate started = started"
    using animate_step [where w = started] z by blast
  have neg: "pr_ident timeout < 0"
    by (simp add: timeout_def)
  have lp: "main_loop scenario [timeout] = Waiting (animate (pollAll timeout scenario))"
    using t neg by simp
  have adv': "f32_val 0x3EBD70A4 < f32_val 0x3EC28F5C"
    using adv by (simp only: f32_add_scenario)
  show ?thesis
    using a d g ang u fr z st neg lp wrap adv' f32_scenario_facts(2,3) unfolding tr fe
    by blast
qed


section \<open>The destroy request\<close>

text \<open>
  Claim C6.  When an event has been processed and \<^verbatim>\<open>destroyRequested\<close> is set, the loop
  calls \<^verbatim>\<open>termDisplay\<close> once and returns, in whatever world this happens and whatever the
  host would deliver next.  For the host's destroy request itself: the effects of the run
  are the poll, then the backend calls of one release (none if there was no display), and
  nothing else; no frame is presented; the handles are invalid and \<^verbatim>\<open>animating\<close> is false
  afterwards.
\<close>

theorem destroy_releases_once:
  "(0 \<le> pr_ident r \<and> dispatch r (pollAll r w) = Inr w2 \<and> destroyRequested (app (ctx w2)) \<noteq> 0 \<longrightarrow>
      main_loop w (r # rest) = Returned (termDisplay w2) \<and>
      trace (termDisplay w2) =
        trace w2 @ (if display (ctx w2) \<noteq> 0 then release_effects (ctx w2) else []) \<and>
      frames (trace (termDisplay w2)) = frames (trace w2)) \<and>
   main_loop w (destroy_request e # rest) = main_loop w [destroy_request e] \<and>
   (\<exists>w'. main_loop w (destroy_request e # rest) = Returned w') \<and>
   trace (world_of (main_loop w (destroy_request e # rest))) =
     trace w @ [PollAll (poll_timeout w)] @
     (if display (ctx w) \<noteq> 0 then release_effects (ctx w) else []) \<and>
   frames (trace (world_of (main_loop w (destroy_request e # rest)))) = frames (trace w) \<and>
   rt_invalid (ctx (world_of (main_loop w (destroy_request e # rest)))) \<and>
   animating (ctx (world_of (main_loop w (destroy_request e # rest)))) = 0"
proof -
  have general: "main_loop w (r # rest) = Returned (termDisplay w2)"
    if "0 \<le> pr_ident r" and "dispatch r (pollAll r w) = Inr w2"
      and "destroyRequested (app (ctx w2)) \<noteq> 0"
    using that by simp
  note run = main_loop_destroy_request
  have tr: "trace (world_of (main_loop w (destroy_request e # rest))) =
     trace w @ [PollAll (poll_timeout w)] @
     (if display (ctx w) \<noteq> 0 then release_effects (ctx w) else [])"
    unfolding run by (simp add: trace_termDisplay trace_pollAll release_effects_def)
  have fr: "frames (trace (world_of (main_loop w (destroy_request e # rest)))) = frames (trace w)"
    unfolding tr by simp
  have fin: "rt_invalid (ctx (world_of (main_loop w (destroy_request e # rest))))"
    "animating (ctx (world_of (main_loop w (destroy_request e # rest)))) = 0"
    unfolding run world_of.simps by (rule rt_termDisplay) (simp add: ctx_termDisplay)
  have same: "main_loop w (destroy_request e # rest) = main_loop w [destroy_request e]"
    unfolding run ..
  have ex: "\<exists>w'. main_loop w (destroy_request e # rest) = Returned w'"
    unfolding run by blast
  show ?thesis
    using general tr fr fin same ex by (simp add: trace_termDisplay frames_termDisplay)
qed

theorem destroy_releases_once_witness:
  "0 \<le> pr_ident (destroy_request example_egl) \<and>
   dispatch (destroy_request example_egl) (pollAll (destroy_request example_egl) scenario) =
     Inr ((pollAll (destroy_request example_egl) scenario)
            \<lparr>ctx := (ctx scenario)\<lparr>app := example_app\<lparr>destroyRequested := 1\<rparr>\<rparr>\<rparr>) \<and>
   rt_valid (ctx scenario) \<and> isAnimating scenario \<and>
   main_loop scenario (destroy_request example_egl # [timeout, timeout]) =
     Returned (termDisplay ((pollAll (destroy_request example_egl) scenario)
            \<lparr>ctx := (ctx scenario)\<lparr>app := example_app\<lparr>destroyRequested := 1\<rparr>\<rparr>\<rparr>)) \<and>
   trace (world_of (main_loop scenario (destroy_request example_egl # [timeout, timeout]))) =
     trace scenario @ [PollAll 0, EglMakeCurrent 3 0 0 0, EglDestroyContext 3 41,
                       EglDestroySurface 3 31, EglTerminate 3] \<and>
   frames (trace (world_of (main_loop scenario (destroy_request example_egl # [timeout, timeout])))) =
     frames (trace scenario)"
proof -
  let ?r = "destroy_request example_egl"
  let ?w2 = "(pollAll ?r scenario)\<lparr>ctx := (ctx scenario)\<lparr>app := example_app\<lparr>destroyRequested := 1\<rparr>\<rparr>\<rparr>"
  have a: "0 \<le> pr_ident ?r"
    by (simp add: destroy_request_def)
  have ap: "app (ctx scenario) = example_app"
    by (simp add: scenario_eq)
  have b: "dispatch ?r (pollAll ?r scenario) = Inr ?w2"
    by (simp add: dispatch_destroy_request ap)
  have c: "destroyRequested (app (ctx ?w2)) \<noteq> 0"
    by simp
  have v: "rt_valid (ctx scenario)" "isAnimating scenario"
    by (simp_all add: scenario_eq rt_valid_def isAnimating_def)
  note t = destroy_releases_once [where r = ?r and w = scenario and ?w2.0 = ?w2
      and rest = "[timeout, timeout]" and e = example_egl]
  have d: "main_loop scenario (?r # [timeout, timeout]) = Returned (termDisplay ?w2)"
    using t a b c by blast
  have tr: "trace (world_of (main_loop scenario (?r # [timeout, timeout]))) =
     trace scenario @ [PollAll (poll_timeout scenario)] @
     (if display (ctx scenario) \<noteq> 0 then release_effects (ctx scenario) else [])"
    using t by blast
  have pt: "poll_timeout scenario = 0"
    by (simp add: poll_timeout_def v)
  have re: "release_effects (ctx scenario) =
      [EglMakeCurrent 3 0 0 0, EglDestroyContext 3 41, EglDestroySurface 3 31, EglTerminate 3]"
    by (simp add: release_effects_def scenario_eq)
  have di: "display (ctx scenario) \<noteq> 0"
    by (simp add: scenario_eq)
  have e: "trace (world_of (main_loop scenario (?r # [timeout, timeout]))) =
     trace scenario @ [PollAll 0, EglMakeCurrent 3 0 0 0, EglDestroyContext 3 41,
                       EglDestroySurface 3 31, EglTerminate 3]"
    unfolding tr pt re using di by simp
  have f: "frames (trace (world_of (main_loop scenario (?r # [timeout, timeout])))) =
     frames (trace scenario)"
    using t by blast
  show ?thesis
    using a b v d e f by blast
qed


section \<open>Saving and restoring\<close>

text \<open>
  Claim C7.  \<^verbatim>\<open>onSaveState\<close> leaves in the host's buffer the current saved state, field
  for field and the angle bit for bit, with the size of the struct; \<^verbatim>\<open>init\<close> of a new
  engine on an \<^verbatim>\<open>android_app\<close> holding that buffer returns as soon as a sensor manager can
  be obtained, and then its saved state is the one that was saved.  The witness is the
  scenario \<open>x = 120\<close>, \<open>y = 340\<close>, \<open>angle = 0.37f\<close>.
\<close>

theorem save_restore_roundtrip:
  "savedState (app (ctx (onSaveState w))) = Some (state (ctx w)) \<and>
   savedStateSize (app (ctx (onSaveState w))) = sizeof_SavedState \<and>
   onAppCmd e APP_CMD_SAVE_STATE w = Inr (onSaveState w) \<and>
   (acquireASensorManagerInstance p = Inr m \<longrightarrow>
      (\<exists>w1. init p (a\<lparr>savedState := savedState (app (ctx (onSaveState w)))\<rparr>) = Inr w1 \<and>
            state (ctx w1) = state (ctx w)))"
  by (simp add: ctx_onSaveState onAppCmd_def init_def Let_def)

theorem save_restore_roundtrip_witness:
  "acquireASensorManagerInstance example_platform = Inr 11 \<and>
   state (ctx scenario) = \<lparr>angle = 0x3EBD70A4, saved_x = 120, saved_y = 340\<rparr> \<and>
   state (ctx (final (init example_platform
      (example_app\<lparr>savedState := savedState (app (ctx (onSaveState scenario)))\<rparr>)))) =
     \<lparr>angle = 0x3EBD70A4, saved_x = 120, saved_y = 340\<rparr>"
proof -
  have m: "acquireASensorManagerInstance example_platform = Inr 11"
    by (simp add: acquireASensorManagerInstance_def example_platform_def)
  have s: "state (ctx scenario) = \<lparr>angle = 0x3EBD70A4, saved_x = 120, saved_y = 340\<rparr>"
    by (simp add: scenario_eq)
  from save_restore_roundtrip [of scenario example_egl example_platform 11 example_app] m
  obtain w1 where
    "init example_platform
       (example_app\<lparr>savedState := savedState (app (ctx (onSaveState scenario)))\<rparr>) = Inr w1"
    and "state (ctx w1) = state (ctx scenario)"
    by blast
  then show ?thesis using m s by simp
qed


section \<open>Acquisition resets the angle\<close>

text \<open>
  Claim C8.  Every \<^verbatim>\<open>initDisplay\<close> that returns 0 leaves the angle at 0, whatever it was.
  So when an engine is started from a saved buffer (which restores the angle) and its
  window is then created, the acquisition overwrites the restored angle with 0; x and y
  are kept.
\<close>

theorem acquire_resets_angle:
  "(return_code (initDisplay e w) = Some 0 \<longrightarrow>
      angle (state (ctx (acquisition (initDisplay e w)))) = f32_zero) \<and>
   (init p (a\<lparr>savedState := savedState (app (ctx (onSaveState ws)))\<rparr>) = Inr w \<and>
    window a \<noteq> 0 \<and> return_code (initDisplay e w) = Some 0 \<longrightarrow>
      state (ctx w) = state (ctx ws) \<and>
      state (ctx (final (onAppCmd e APP_CMD_INIT_WINDOW w))) =
        (state (ctx ws))\<lparr>angle := f32_zero\<rparr>)"
proof -
  have first: "angle (state (ctx (acquisition (initDisplay e w)))) = f32_zero"
    if "return_code (initDisplay e w) = Some 0"
    using that by (simp add: initDisplay_state)
  have second: "state (ctx w) = state (ctx ws) \<and>
      state (ctx (final (onAppCmd e APP_CMD_INIT_WINDOW w))) =
        (state (ctx ws))\<lparr>angle := f32_zero\<rparr>"
    if i: "init p (a\<lparr>savedState := savedState (app (ctx (onSaveState ws)))\<rparr>) = Inr w"
      and win: "window a \<noteq> 0" and rc: "return_code (initDisplay e w) = Some 0"
  proof -
    from i have c: "state (ctx w) = state (ctx ws)" and ap: "window (app (ctx w)) = window a"
      by (auto simp: init_def ctx_onSaveState zero_Context_def Let_def split: sum.splits)
    show ?thesis
      using c ap win rc by (simp add: final_onAppCmd ctx_onInitWindow initDisplay_state)
  qed
  show ?thesis using first second by blast
qed

theorem acquire_resets_angle_witness:
  "init example_platform
     (example_app\<lparr>savedState := savedState (app (ctx (onSaveState scenario)))\<rparr>) = Inr restored \<and>
   window example_app \<noteq> 0 \<and>
   return_code (initDisplay example_egl restored) = Some 0 \<and>
   state (ctx restored) = \<lparr>angle = 0x3EBD70A4, saved_x = 120, saved_y = 340\<rparr> \<and>
   angle (state (ctx (acquisition (initDisplay example_egl restored)))) = f32_zero \<and>
   state (ctx (final (onAppCmd example_egl APP_CMD_INIT_WINDOW restored))) =
     \<lparr>angle = f32_zero, saved_x = 120, saved_y = 340\<rparr>"
proof -
  have win: "window example_app \<noteq> 0"
    by (simp add: example_app_def)
  have s: "state (ctx scenario) = \<lparr>angle = 0x3EBD70A4, saved_x = 120, saved_y = 340\<rparr>"
    by (simp add: scenario_eq)
  note t = acquire_resets_angle [where e = example_egl and w = restored
      and p = example_platform and a = example_app and ws = scenario]
  have a: "angle (state (ctx (acquisition (initDisplay example_egl restored)))) = f32_zero"
    using t initDisplay_restored by blast
  have b: "state (ctx restored) = state (ctx scenario) \<and>
      state (ctx (final (onAppCmd example_egl APP_CMD_INIT_WINDOW restored))) =
        (state (ctx scenario))\<lparr>angle := f32_zero\<rparr>"
    using t init_restored win initDisplay_restored by blast
  show ?thesis
    using a b s win init_restored initDisplay_restored by simp
qed


section \<open>Gaining focus\<close>

text \<open>
  Claim C9.  With an accelerometer, \<^verbatim>\<open>onFocus(true)\<close> enables the sensor and sets its event
  rate; without one it does nothing at all.  The rate it asks for is the period
  \<^verbatim>\<open>(1000L / 60) * 1000\<close>, which integer division makes 16000 microseconds, that is 62.5
  events per second; the period of 60 events per second, which the comment in the source
  and the claim name, is 16666 microseconds.
\<close>

theorem gain_focus_event_rate:
  "onFocus True w =
     (if accelerometerSensor (ctx w) \<noteq> 0
      then emit [EnableSensor (sensorEventQueue (ctx w)) (accelerometerSensor (ctx w)),
                 SetEventRate (sensorEventQueue (ctx w)) (accelerometerSensor (ctx w)) 16000] w
      else w) \<and>
   onAppCmd e APP_CMD_GAINED_FOCUS w = Inr (onFocus True w) \<and>
   microseconds_per_event 60 = 16666 \<and>
   trace (onFocus True started) = [EnableSensor 14 13, SetEventRate 14 13 16000]"
  by (simp add: onFocus_def onAppCmd_def microseconds_per_event_def Let_def started_eq)


section \<open>What release leaves alone\<close>

text \<open>
  Claim C10.  \<^verbatim>\<open>termDisplay\<close> writes the three handles and \<^verbatim>\<open>animating\<close> and nothing
  else: the saved state (angle, x, y), the cached width and height and the sensor queue are
  as before.  So the pointer coordinates recorded before a \<^verbatim>\<open>TermWindow\<close> are still there
  after the \<^verbatim>\<open>InitWindow\<close> that follows, whatever the acquisition does.
\<close>

theorem termDisplay_frame:
  "ctx (termDisplay w) = (ctx w)\<lparr>animating := 0, display := 0, glcontext := 0, surface := 0\<rparr> \<and>
   sensorEvents (termDisplay w) = sensorEvents w \<and>
   state (ctx (termDisplay w)) = state (ctx w) \<and>
   width (ctx (termDisplay w)) = width (ctx w) \<and>
   height (ctx (termDisplay w)) = height (ctx w) \<and>
   saved_x (state (ctx (final (onInitWindow e (onTermWindow w))))) = saved_x (state (ctx w)) \<and>
   saved_y (state (ctx (final (onInitWindow e (onTermWindow w))))) = saved_y (state (ctx w))"
proof -
  have st: "state (ctx (termDisplay w)) = state (ctx w)"
    by (simp add: ctx_termDisplay)
  have "saved_x (state (ctx (final (onInitWindow e (termDisplay w))))) =
          saved_x (state (ctx (termDisplay w)))"
    by (simp add: ctx_onInitWindow initDisplay_state)
  moreover have "saved_y (state (ctx (final (onInitWindow e (termDisplay w))))) =
          saved_y (state (ctx (termDisplay w)))"
    by (simp add: ctx_onInitWindow initDisplay_state)
  ultimately show ?thesis
    using st by (simp add: ctx_termDisplay sensorEvents_termDisplay onTermWindow_def)
qed

end
